theory Spec2Isabelle
  imports Main "HOL-Library.Sublist" "HOL-Library.Char_ord" "HOL-Library.List_Lexorder"
begin

chapter \<open>The Observatory's collection and validation pipeline\<close>

text \<open>
  The development has two parts. The first embeds the TypeScript of the repository:
  the confidence model (\<^verbatim>\<open>scripts/utils/confidence.ts\<close>), the GitHub client
  (\<^verbatim>\<open>scripts/utils/github-client.ts\<close>), the field collectors
  (\<^verbatim>\<open>scripts/collect-github.ts\<close>) and the dataset validator
  (\<^verbatim>\<open>scripts/validate-data.ts\<close>). The second part states and proves the properties.

  Conventions of the embedding.
  \<^item> A JavaScript string is a \<open>string\<close>; its characters stand for the code units
    \<open>0\<close> to \<open>255\<close>, so the two line terminators and the white space beyond Latin-1 are
    outside the model.
  \<^item> \<^verbatim>\<open>null\<close> in a field of type \<^verbatim>\<open>T | null\<close> is \<open>None\<close>.
  \<^item> A function that pushes onto the shared \<^verbatim>\<open>notes\<close> array takes the notes and
    returns them extended.
  \<^item> A \<^verbatim>\<open>throw\<close> is the left summand of a sum type.
  \<^item> The network is a parameter: a collector is given the function from request path to
    outcome that \<^verbatim>\<open>client.get\<close> computes, as the repository's unit tests do with their
    mock client; the client itself is embedded over a sequence of upstream responses.
\<close>

section \<open>JavaScript strings and numbers\<close>

text \<open>
  Line terminators are what \<^verbatim>\<open>.\<close>, \<^verbatim>\<open>^\<close> and \<^verbatim>\<open>$\<close> of a regular expression look at;
  white space is what \<^verbatim>\<open>\s\<close>, \<^verbatim>\<open>String.prototype.trim\<close> and \<^verbatim>\<open>parseInt\<close> skip (tab,
  line feed, vertical tab, form feed, carriage return, space, no-break space).
\<close>

definition is_line_terminator :: "char \<Rightarrow> bool" where
  "is_line_terminator c = (c = CHR 0x0A \<or> c = CHR 0x0D)"

definition is_white_space :: "char \<Rightarrow> bool" where
  "is_white_space c =
     (c \<in> set [CHR 0x09, CHR 0x0A, CHR 0x0B, CHR 0x0C, CHR 0x0D, CHR 0x20, CHR 0xA0])"

definition trim :: "string \<Rightarrow> string" where
  "trim s = rev (dropWhile is_white_space (rev (dropWhile is_white_space s)))"

definition startsWith :: "string \<Rightarrow> string \<Rightarrow> bool" where
  "startsWith s p = prefix p s"

definition endsWith :: "string \<Rightarrow> string \<Rightarrow> bool" where
  "endsWith s p = suffix p s"

text \<open>
  \<^verbatim>\<open>s.split(sep)\<close> for a separator of one character. The result is never the empty
  array, so the last case of the inner distinction does not occur.
\<close>

fun js_split :: "char \<Rightarrow> string \<Rightarrow> string list" where
  "js_split sep [] = [[]]"
| "js_split sep (c # cs) =
     (if c = sep then [] # js_split sep cs
      else (case js_split sep cs of
              part # parts \<Rightarrow> (c # part) # parts
            | [] \<Rightarrow> [[c]]))"

text \<open>\<^verbatim>\<open>parts.join(sep)\<close>.\<close>

fun join :: "string \<Rightarrow> string list \<Rightarrow> string" where
  "join sep [] = []"
| "join sep [x] = x"
| "join sep (x # y # ys) = x @ sep @ join sep (y # ys)"

text \<open>Decimal numerals, read and written.\<close>

definition is_digit :: "char \<Rightarrow> bool" where
  "is_digit c = (CHR ''0'' \<le> c \<and> c \<le> CHR ''9'')"

definition digit_value :: "char \<Rightarrow> int" where
  "digit_value c = of_char c - 48"

definition int_of_digits :: "string \<Rightarrow> int" where
  "int_of_digits s = foldl (\<lambda>n c. 10 * n + digit_value c) 0 s"

definition digit_char :: "nat \<Rightarrow> char" where
  "digit_char d = char_of (48 + d)"

function string_of_nat :: "nat \<Rightarrow> string" where
  "string_of_nat n =
     (if n < 10 then [digit_char n] else string_of_nat (n div 10) @ [digit_char (n mod 10)])"
  by pat_completeness auto
termination
  by (relation "measure id") auto

definition string_of_int :: "int \<Rightarrow> string" where
  "string_of_int i = (if i < 0 then CHR ''-'' # string_of_nat (nat (- i)) else string_of_nat (nat i))"

text \<open>
  \<^verbatim>\<open>parseInt(s, 10)\<close>: leading white space, an optional sign, then the longest run of
  digits; \<open>None\<close> is \<^verbatim>\<open>NaN\<close>. A JavaScript number that holds an integer is an \<open>int\<close>
  here, which is exact below \<open>2 ^ 53\<close>.
\<close>

definition parseInt :: "string \<Rightarrow> int option" where
  "parseInt s =
     (let t = dropWhile is_white_space s;
          neg = (t \<noteq> [] \<and> hd t = CHR ''-'');
          u = (if t \<noteq> [] \<and> (hd t = CHR ''-'' \<or> hd t = CHR ''+'') then tl t else t);
          ds = takeWhile is_digit u
      in if ds = [] then None
         else Some (if neg then - int_of_digits ds else int_of_digits ds))"

text \<open>
  \<^verbatim>\<open>Number(s)\<close> on the component of a version string. The embedding reads the empty
  string (which is \<open>0\<close>) and the plain decimal numerals below \<open>2 ^ 53 = 9007199254740992\<close>,
  where a double is exact. \<open>None\<close> is \<^verbatim>\<open>NaN\<close>; it also stands for the numeral forms this embedding
  does not read (a sign, an exponent, a radix prefix, surrounding white space,
  \<^verbatim>\<open>Infinity\<close>, \<open>2 ^ 53\<close> or more), which the theorems about versions exclude by
  hypothesis.
\<close>

definition Number :: "string \<Rightarrow> int option" where
  "Number s =
     (if list_all is_digit s \<and> int_of_digits s < 9007199254740992 then Some (int_of_digits s)
      else None)"

text \<open>
  \<^verbatim>\<open>Date.parse\<close> is a parameter wherever a date string is read: a function
  \<open>string \<Rightarrow> int option\<close> giving the milliseconds since the epoch, \<open>None\<close> for
  \<^verbatim>\<open>NaN\<close> (an invalid date). What it accepts beyond the ISO format is left to the
  implementation by ECMAScript.
\<close>

type_synonym date_parser = "string \<Rightarrow> int option"

section \<open>Confidence model (scripts/utils/confidence.ts)\<close>

datatype ConfidenceTier = Verified | Self_reported | Auto_detected

text \<open>
  \<^verbatim>\<open>isValidTransition(from, to)\<close>: an argument of type \<^verbatim>\<open>ConfidenceTier | null\<close> is an
  option. The tests keep the order of the source.
\<close>

definition isValidTransition :: "ConfidenceTier option \<Rightarrow> ConfidenceTier option \<Rightarrow> bool" where
  "isValidTransition from to =
     (if from = None \<or> to = None then True
      else if from = Some Auto_detected \<and> to = Some Verified then True
      else if from = Some Self_reported \<and> to = Some Verified then True
      else if from = Some Verified \<and> to = Some Self_reported then True
      else if from = to then True
      else if from = Some Auto_detected \<and> to = Some Self_reported then True
      else False)"

section \<open>The client's interface (scripts/utils/github-client.ts)\<close>

record RateLimit =
  remaining :: "int option"
  reset :: "int option"

record 'a GitHubResponse =
  data :: 'a
  status :: int
  rateLimit :: RateLimit

record GitHubError =
  status :: int
  message :: string
  retryable :: bool

text \<open>
  What a \<^verbatim>\<open>catch (error)\<close> can receive: an object with the three properties
  \<^verbatim>\<open>isGitHubError\<close> looks for, or anything else (an \<^verbatim>\<open>Error\<close> with its message, or a
  value that is no \<^verbatim>\<open>Error\<close>).
\<close>

datatype thrown = Thrown_GitHubError GitHubError | Thrown_Error string | Thrown_value

fun isGitHubError :: "thrown \<Rightarrow> bool" where
  "isGitHubError (Thrown_GitHubError e) = True"
| "isGitHubError (Thrown_Error m) = False"
| "isGitHubError Thrown_value = False"

section \<open>The client (scripts/utils/github-client.ts)\<close>

definition MAX_RETRIES :: nat where
  "MAX_RETRIES = 3"

definition INITIAL_BACKOFF_MS :: int where
  "INITIAL_BACKOFF_MS = 1000"

definition RATE_LIMIT_THRESHOLD :: int where
  "RATE_LIMIT_THRESHOLD = 100"

text \<open>
  What \<^verbatim>\<open>fetch\<close> resolves to, as far as the client reads it: the status, the two
  rate-limit headers (\<open>None\<close> when \<^verbatim>\<open>headers.get\<close> gives \<^verbatim>\<open>null\<close>), and what
  \<^verbatim>\<open>response.json()\<close> settles to. \<^verbatim>\<open>response.ok\<close> is a status from 200 to 299.
\<close>

record 'a Response =
  response_status :: int
  x_ratelimit_remaining :: "string option"
  x_ratelimit_reset :: "string option"
  json :: "thrown + 'a"

definition ok :: "'a Response \<Rightarrow> bool" where
  "ok response = (200 \<le> response_status response \<and> response_status response \<le> 299)"

record GitHubClient =
  token :: string
  baseUrl :: string
  lastRateLimit :: RateLimit

text \<open>The constructor; \<^verbatim>\<open>options.baseUrl\<close> may be absent.\<close>

definition new_GitHubClient :: "string \<Rightarrow> string option \<Rightarrow> GitHubClient" where
  "new_GitHubClient options_token options_baseUrl =
     \<lparr>token = options_token,
      baseUrl = (case options_baseUrl of None \<Rightarrow> ''https://api.github.com'' | Some u \<Rightarrow> u),
      lastRateLimit = \<lparr>remaining = Some 5000, reset = Some 0\<rparr>\<rparr>"

text \<open>
  What a call of \<^verbatim>\<open>get\<close> does to the world, in order: it sleeps (the backoff of the
  retry loop, or the pacing of \<^verbatim>\<open>checkRateLimit\<close>) and it sends requests.
\<close>

datatype event = Sleep_backoff int | Sleep_rate_limit int | Fetch string

definition updateRateLimit :: "'a Response \<Rightarrow> RateLimit \<Rightarrow> RateLimit" where
  "updateRateLimit response rl =
     (let rl1 = (case x_ratelimit_remaining response of
                   None \<Rightarrow> rl
                 | Some r \<Rightarrow> rl\<lparr>remaining := parseInt r\<rparr>)
      in case x_ratelimit_reset response of
           None \<Rightarrow> rl1
         | Some r \<Rightarrow> rl1\<lparr>reset := parseInt r\<rparr>)"

text \<open>
  \<^verbatim>\<open>checkRateLimit\<close>, given the reading of \<^verbatim>\<open>Date.now()\<close>: the sleeps it makes. A
  comparison with \<^verbatim>\<open>NaN\<close> is false, and \<^verbatim>\<open>Math.max(0, NaN)\<close> is \<^verbatim>\<open>NaN\<close>.
\<close>

definition checkRateLimit :: "int \<Rightarrow> RateLimit \<Rightarrow> event list" where
  "checkRateLimit Date_now rl =
     (case remaining rl of
        None \<Rightarrow> []
      | Some r \<Rightarrow>
          if r < RATE_LIMIT_THRESHOLD
          then
            (case reset rl of
               None \<Rightarrow> []
             | Some rs \<Rightarrow>
                 let now = Date_now div 1000;
                     waitSeconds = max 0 (rs - now + 1)
                 in if waitSeconds > 0 \<and> waitSeconds < 3600
                    then [Sleep_rate_limit (waitSeconds * 1000)]
                    else [])
          else [])"

text \<open>
  One pass through the body of the retry loop, after the request has settled: the
  function returns, or throws, or goes on to the next attempt with a new
  \<^verbatim>\<open>lastError\<close>.
\<close>

datatype 'a pass = Returns "'a GitHubResponse" | Throws GitHubError | Continues GitHubError

text \<open>The \<^verbatim>\<open>catch\<close> block of the loop.\<close>

definition catch_block :: "nat \<Rightarrow> thrown \<Rightarrow> 'a pass" where
  "catch_block attempt error =
     (case error of
        Thrown_GitHubError e \<Rightarrow> if \<not> retryable e then Throws e else Continues e
      | _ \<Rightarrow>
          let lastError =
                \<lparr>status = 0,
                 message = (case error of Thrown_Error m \<Rightarrow> m | _ \<Rightarrow> ''Network error''),
                 retryable = True\<rparr>
          in if attempt = MAX_RETRIES then Throws lastError else Continues lastError)"

text \<open>
  The \<^verbatim>\<open>try\<close> block from \<^verbatim>\<open>updateRateLimit\<close> on; \<open>rl\<close> is the rate limit as just
  updated. A \<^verbatim>\<open>throw\<close> inside the block lands in the \<^verbatim>\<open>catch\<close> block.
\<close>

definition try_block :: "nat \<Rightarrow> 'a Response \<Rightarrow> RateLimit \<Rightarrow> 'a pass" where
  "try_block attempt response rl =
     (if response_status response = 404
      then catch_block attempt
             (Thrown_GitHubError \<lparr>status = 404, message = ''Not found'', retryable = False\<rparr>)
      else if response_status response = 403
      then
        (if (case remaining rl of None \<Rightarrow> False | Some r \<Rightarrow> r \<le> 0)
         then catch_block attempt
                (Thrown_GitHubError
                   \<lparr>status = 403, message = ''Rate limit exceeded'', retryable = True\<rparr>)
         else catch_block attempt
                (Thrown_GitHubError \<lparr>status = 403, message = ''Forbidden'', retryable = False\<rparr>))
      else if response_status response = 409
      then catch_block attempt
             (Thrown_GitHubError
                \<lparr>status = 409, message = ''Conflict (likely empty repository)'',
                 retryable = False\<rparr>)
      else if response_status response \<ge> 500
      then Continues
             \<lparr>status = response_status response,
              message = ''Server error: '' @ string_of_int (response_status response),
              retryable = True\<rparr>
      else if \<not> ok response
      then catch_block attempt
             (Thrown_GitHubError
                \<lparr>status = response_status response,
                 message = ''HTTP '' @ string_of_int (response_status response),
                 retryable = False\<rparr>)
      else
        (case json response of
           Inl error \<Rightarrow> catch_block attempt error
         | Inr d \<Rightarrow>
             Returns \<lparr>data = d, GitHubResponse.status = response_status response, rateLimit = rl\<rparr>))"

text \<open>
  The loop of \<^verbatim>\<open>get\<close> from \<open>attempt\<close> on. \<open>fetch i\<close> is what the request of attempt \<open>i\<close>
  settles to (a rejection is the left summand) and \<open>Date_now i\<close> is the clock that
  attempt's \<^verbatim>\<open>checkRateLimit\<close> reads. The result comes with the rate limit the client
  is left with and the events so far.
\<close>

function get_loop ::
  "(nat \<Rightarrow> thrown + 'a Response) \<Rightarrow> (nat \<Rightarrow> int) \<Rightarrow> string \<Rightarrow> nat \<Rightarrow> GitHubError option \<Rightarrow>
     RateLimit \<Rightarrow> event list \<Rightarrow> (GitHubError + 'a GitHubResponse) \<times> RateLimit \<times> event list" where
  "get_loop fetch Date_now url attempt lastError rl events =
     (if attempt > MAX_RETRIES
      then
        (Inl (case lastError of
                Some e \<Rightarrow> e
              | None \<Rightarrow>
                  \<lparr>status = 0, message = ''Unknown error after retries'', retryable = False\<rparr>),
         rl, events)
      else
        let events1 =
              events @
              (if attempt > 0 then [Sleep_backoff (INITIAL_BACKOFF_MS * 2 ^ (attempt - 1))] else []);
            events2 = events1 @ checkRateLimit (Date_now attempt) rl @ [Fetch url];
            rl' = (case fetch attempt of Inl error \<Rightarrow> rl | Inr response \<Rightarrow> updateRateLimit response rl);
            pass = (case fetch attempt of
                      Inl error \<Rightarrow> catch_block attempt error
                    | Inr response \<Rightarrow> try_block attempt response rl')
        in case pass of
             Returns r \<Rightarrow> (Inr r, rl', events2)
           | Throws e \<Rightarrow> (Inl e, rl', events2)
           | Continues e \<Rightarrow> get_loop fetch Date_now url (attempt + 1) (Some e) rl' events2)"
  by pat_completeness auto
termination
  by (relation "measure (\<lambda>(fetch, Date_now, url, attempt, lastError, rl, events). MAX_RETRIES + 1 - attempt)")
     auto

definition get ::
  "GitHubClient \<Rightarrow> (nat \<Rightarrow> thrown + 'a Response) \<Rightarrow> (nat \<Rightarrow> int) \<Rightarrow> string \<Rightarrow>
     (GitHubError + 'a GitHubResponse) \<times> GitHubClient \<times> event list" where
  "get client fetch Date_now path =
     (case get_loop fetch Date_now (baseUrl client @ path) 0 None (lastRateLimit client) [] of
        (result, rl, events) \<Rightarrow> (result, client\<lparr>lastRateLimit := rl\<rparr>, events))"

text \<open>
  For the statements about a call: the requests among the events, the pacing sleeps,
  and the events that attempts \<open>a\<close> up to \<open>n - 1\<close> produce apart from pacing, which are
  the backoff before every attempt but the first, and the request.
\<close>

fun is_fetch :: "event \<Rightarrow> bool" where
  "is_fetch (Fetch url) = True"
| "is_fetch (Sleep_backoff ms) = False"
| "is_fetch (Sleep_rate_limit ms) = False"

fun is_pacing :: "event \<Rightarrow> bool" where
  "is_pacing (Sleep_rate_limit ms) = True"
| "is_pacing (Sleep_backoff ms) = False"
| "is_pacing (Fetch url) = False"

definition attempt_events :: "string \<Rightarrow> nat \<Rightarrow> event list" where
  "attempt_events url i =
     (if i > 0 then [Sleep_backoff (INITIAL_BACKOFF_MS * 2 ^ (i - 1))] else []) @ [Fetch url]"

definition attempts_events :: "string \<Rightarrow> nat \<Rightarrow> nat \<Rightarrow> event list" where
  "attempts_events url a n = concat (map (attempt_events url) [a..<n])"

section \<open>The field collectors (scripts/collect-github.ts)\<close>

record TreeEntry =
  path :: string
  type :: string
  size' :: "nat option"

record CommitAuthor =
  date :: string

record Commit =
  author :: CommitAuthor

record CommitResponse =
  commit :: Commit

record WorkflowRun =
  conclusion :: string
  updated_at :: string

record WorkflowRunsResponse =
  workflow_runs :: "WorkflowRun list"


subsection \<open>The fixed tables\<close>

text \<open>
  A regular expression of the source is the predicate of the strings \<^verbatim>\<open>test\<close> accepts.
  None has the \<^verbatim>\<open>m\<close> flag here, so \<^verbatim>\<open>^\<close> and \<^verbatim>\<open>$\<close> are the two ends of the path, and
  a pattern with neither matches anywhere. \<open>dot_star_then lit r\<close> is \<^verbatim>\<open>.*lit$\<close> matched
  from the start of \<open>r\<close>: \<open>r\<close> ends with \<open>lit\<close> and no line terminator stands before it.
\<close>

definition dot_star_then :: "string \<Rightarrow> string \<Rightarrow> bool" where
  "dot_star_then lit r =
     (suffix lit r \<and> list_all (\<lambda>c. \<not> is_line_terminator c) (take (length r - length lit) r))"

text \<open>\<^verbatim>\<open>/Test\.daml$|Tests\.daml$/\<close>\<close>

definition pattern_daml :: "string \<Rightarrow> bool" where
  "pattern_daml p = (suffix ''Test.daml'' p \<or> suffix ''Tests.daml'' p)"

text \<open>\<^verbatim>\<open>/\.test\.ts$|\.spec\.ts$|__tests__\//\<close>\<close>

definition pattern_typescript :: "string \<Rightarrow> bool" where
  "pattern_typescript p = (suffix ''.test.ts'' p \<or> suffix ''.spec.ts'' p \<or> sublist ''__tests__/'' p)"

text \<open>\<^verbatim>\<open>/\.test\.js$|\.spec\.js$|__tests__\//\<close>\<close>

definition pattern_javascript :: "string \<Rightarrow> bool" where
  "pattern_javascript p = (suffix ''.test.js'' p \<or> suffix ''.spec.js'' p \<or> sublist ''__tests__/'' p)"

text \<open>\<^verbatim>\<open>/^src\/test\//\<close>\<close>

definition pattern_java :: "string \<Rightarrow> bool" where
  "pattern_java p = prefix ''src/test/'' p"

text \<open>\<^verbatim>\<open>/test_.*\.py$|_test\.py$/\<close>: the first alternative may start at any position.\<close>

definition pattern_python :: "string \<Rightarrow> bool" where
  "pattern_python p =
     (list_ex (\<lambda>t. prefix ''test_'' t \<and> dot_star_then ''.py'' (drop 5 t)) (suffixes p) \<or>
      suffix ''_test.py'' p)"

definition TEST_FILE_PATTERNS :: "(string \<Rightarrow> bool) list" where
  "TEST_FILE_PATTERNS =
     [pattern_daml, pattern_typescript, pattern_javascript, pattern_java, pattern_python]"

definition CODE_EXTENSIONS :: "string list" where
  "CODE_EXTENSIONS =
     [''.ts'', ''.js'', ''.py'', ''.java'', ''.scala'', ''.daml'', ''.hs'', ''.rs'', ''.go'',
      ''.rb'', ''.kt'']"

text \<open>\<^verbatim>\<open>/^\.github\/workflows\/.*\.ya?ml$/\<close>\<close>

definition pattern_github_workflow :: "string \<Rightarrow> bool" where
  "pattern_github_workflow p =
     (prefix ''.github/workflows/'' p \<and>
      (dot_star_then ''.yml'' (drop 18 p) \<or> dot_star_then ''.yaml'' (drop 18 p)))"

text \<open>
  \<^verbatim>\<open>/^\.circleci\/config\.yml$/\<close>, \<^verbatim>\<open>/^Jenkinsfile$/\<close>, \<^verbatim>\<open>/^\.gitlab-ci\.yml$/\<close> and
  \<^verbatim>\<open>/^\.travis\.yml$/\<close> accept one string each.
\<close>

definition CI_CONFIG_PATTERNS :: "(string \<Rightarrow> bool) list" where
  "CI_CONFIG_PATTERNS =
     [pattern_github_workflow,
      (\<lambda>p. p = ''.circleci/config.yml''),
      (\<lambda>p. p = ''Jenkinsfile''),
      (\<lambda>p. p = ''.gitlab-ci.yml''),
      (\<lambda>p. p = ''.travis.yml'')]"


definition STALE_CI_DAYS :: int where
  "STALE_CI_DAYS = 90"

text \<open>
  An object literal inherits from \<^verbatim>\<open>Object.prototype\<close>, and both \<^verbatim>\<open>obj[key]\<close> and
  \<^verbatim>\<open>key in obj\<close> follow the prototype chain. These are the property names found there.
\<close>

definition Object_prototype_keys :: "string list" where
  "Object_prototype_keys =
     [''constructor'', ''__defineGetter__'', ''__defineSetter__'', ''hasOwnProperty'',
      ''__lookupGetter__'', ''__lookupSetter__'', ''isPrototypeOf'', ''propertyIsEnumerable'',
      ''toString'', ''valueOf'', ''__proto__'', ''toLocaleString'']"

subsection \<open>Last activity\<close>

record ActivityResult =
  last_verified_activity :: "string option"

definition collectLastActivity ::
  "(string \<Rightarrow> thrown + CommitResponse list GitHubResponse) \<Rightarrow> string \<Rightarrow> string \<Rightarrow> string list \<Rightarrow>
     thrown + (ActivityResult \<times> string list)" where
  "collectLastActivity client_get owner repo notes =
     (case client_get (''/repos/'' @ owner @ ''/'' @ repo @ ''/commits?per_page=1'') of
        Inr response \<Rightarrow>
          (if length (data response) = 0
           then Inr (\<lparr>last_verified_activity = None\<rparr>, notes @ [''No commits found''])
           else
             let commitDate = date (author (commit (hd (data response))))
             in if commitDate = [] then Inr (\<lparr>last_verified_activity = None\<rparr>, notes)
                else Inr (\<lparr>last_verified_activity = Some (take 10 commitDate)\<rparr>, notes))
      | Inl error \<Rightarrow>
          (case error of
             Thrown_GitHubError e \<Rightarrow>
               (if GitHubError.status e = 409
                then Inr (\<lparr>last_verified_activity = None\<rparr>, notes @ [''Empty repository''])
                else Inr (\<lparr>last_verified_activity = None\<rparr>,
                          notes @ [''Could not fetch commits: '' @ message e]))
           | _ \<Rightarrow> Inl error))"

subsection \<open>Tests\<close>

text \<open>\<^verbatim>\<open>getExtension\<close>: from the last dot to the end, or the empty string.\<close>

definition getExtension :: "string \<Rightarrow> string" where
  "getExtension p =
     (if CHR ''.'' \<notin> set p then []
      else CHR ''.'' # rev (takeWhile (\<lambda>c. c \<noteq> CHR ''.'') (rev p)))"

record TestsResult =
  has_tests :: "bool option"
  test_count :: "nat option"

definition is_test_file :: "TreeEntry \<Rightarrow> bool" where
  "is_test_file entry =
     (if type entry \<noteq> ''blob'' then False
      else
        let ext = getExtension (path entry)
        in if ext \<notin> set CODE_EXTENSIONS \<and> \<not> endsWith ext ''.daml'' then False
           else list_ex (\<lambda>p. p (path entry)) TEST_FILE_PATTERNS)"

definition collectTests :: "TreeEntry list \<Rightarrow> bool \<Rightarrow> string list \<Rightarrow> TestsResult \<times> string list" where
  "collectTests tree truncated notes =
     (if length tree = 0 then (\<lparr>has_tests = None, test_count = None\<rparr>, notes)
      else
        let testFiles = filter is_test_file tree
        in if length testFiles = 0 then (\<lparr>has_tests = Some False, test_count = None\<rparr>, notes)
           else if truncated
           then (\<lparr>has_tests = Some True, test_count = None\<rparr>,
                 notes @ [''Test count may be incomplete due to large repo''])
           else (\<lparr>has_tests = Some True, test_count = Some (length testFiles)\<rparr>,
                 notes @ [''Found '' @ string_of_nat (length testFiles) @
                          '' test files (approximate count)'']))"

subsection \<open>Continuous integration\<close>

datatype CiStatus = Passing | Failing | Stale | Unknown

record CiResult =
  has_ci :: "bool option"
  ci_status :: "CiStatus option"

text \<open>
  \<open>daysSince\<close> is \<^verbatim>\<open>Math.floor((now.getTime() - updatedAt.getTime()) / 86400000)\<close>. Both
  times are whole milliseconds, so the quotient's floor is integer division; with an
  invalid date it is \<^verbatim>\<open>NaN\<close>, and \<^verbatim>\<open>NaN > 90\<close> is false.
\<close>

definition daysSince :: "date_parser \<Rightarrow> int \<Rightarrow> WorkflowRun \<Rightarrow> int option" where
  "daysSince Date_parse now run =
     (case Date_parse (updated_at run) of
        None \<Rightarrow> None
      | Some updatedAt \<Rightarrow> Some ((now - updatedAt) div (1000 * 60 * 60 * 24)))"

definition ciStatus_of :: "string \<Rightarrow> CiStatus" where
  "ciStatus_of c =
     (if c = ''success'' then Passing else if c = ''failure'' then Failing else Unknown)"

definition is_ci_file :: "TreeEntry \<Rightarrow> bool" where
  "is_ci_file e = (type e = ''blob'' \<and> list_ex (\<lambda>p. p (path e)) CI_CONFIG_PATTERNS)"

text \<open>
  \<open>now\<close> is the reading of the clock that \<^verbatim>\<open>new Date()\<close> takes, in milliseconds.
\<close>

definition collectCi ::
  "(string \<Rightarrow> thrown + WorkflowRunsResponse GitHubResponse) \<Rightarrow> date_parser \<Rightarrow> int \<Rightarrow>
     string \<Rightarrow> string \<Rightarrow> TreeEntry list \<Rightarrow> string list \<Rightarrow> CiResult \<times> string list" where
  "collectCi client_get Date_parse now owner repo tree notes =
     (if length tree = 0 then (\<lparr>has_ci = None, ci_status = None\<rparr>, notes)
      else
        let ciFiles = filter is_ci_file tree
        in if length ciFiles = 0 then (\<lparr>has_ci = Some False, ci_status = None\<rparr>, notes)
           else
             let hasGitHubActions =
                   list_ex (\<lambda>f. startsWith (path f) ''.github/workflows/'') ciFiles
             in if \<not> hasGitHubActions
                then (\<lparr>has_ci = Some True, ci_status = Some Unknown\<rparr>,
                      notes @ [''Non-GitHub CI detected; status unknown''])
                else
                  (case client_get (''/repos/'' @ owner @ ''/'' @ repo @ ''/actions/runs'' @
                             ''?per_page=1&status=completed'') of
                     Inr response \<Rightarrow>
                       (case workflow_runs (data response) of
                          [] \<Rightarrow> (\<lparr>has_ci = Some True, ci_status = Some Unknown\<rparr>, notes)
                        | run # rest \<Rightarrow>
                            (case daysSince Date_parse now run of
                               Some d \<Rightarrow>
                                 if d > STALE_CI_DAYS
                                 then (\<lparr>has_ci = Some True, ci_status = Some Stale\<rparr>,
                                       notes @ [''Last CI run was '' @ string_of_int d @
                                                '' days ago (stale)''])
                                 else (\<lparr>has_ci = Some True,
                                        ci_status = Some (ciStatus_of (conclusion run))\<rparr>, notes)
                             | None \<Rightarrow>
                                 (\<lparr>has_ci = Some True,
                                   ci_status = Some (ciStatus_of (conclusion run))\<rparr>, notes)))
                   | Inl error \<Rightarrow>
                       (case error of
                          Thrown_GitHubError e \<Rightarrow>
                            (\<lparr>has_ci = Some True, ci_status = Some Unknown\<rparr>,
                             notes @ [''Could not fetch CI runs: '' @ message e])
                        | _ \<Rightarrow> (\<lparr>has_ci = Some True, ci_status = Some Unknown\<rparr>, notes))))"

subsection \<open>SDK version\<close>

text \<open>
  \<^verbatim>\<open>parseSdkVersion\<close> matches \<^verbatim>\<open>/^sdk-version:\s*(.+)$/m\<close> and trims the group. With the
  \<^verbatim>\<open>m\<close> flag a match starts at the beginning of a line. After the literal, \<^verbatim>\<open>\s*\<close> takes
  the longest run of white space (line terminators included). If a character follows
  the run, it is no line terminator and the group is the rest of its line. If the run
  reaches the end of the input, the matcher backtracks: the group is the last character
  of the run that is no line terminator, and without one there is no match at this
  start. \<open>capture_after\<close> is given the input after the literal.
\<close>

definition capture_after :: "string \<Rightarrow> string option" where
  "capture_after rest =
     (let run = takeWhile is_white_space rest;
          r = dropWhile is_white_space rest
      in if r \<noteq> [] then Some (takeWhile (\<lambda>c. \<not> is_line_terminator c) r)
         else
           (case filter (\<lambda>c. \<not> is_line_terminator c) run of
              [] \<Rightarrow> None
            | c # cs \<Rightarrow> Some [last (c # cs)]))"

text \<open>
  The leftmost match: \<open>bol\<close> says whether the input starts at the beginning of a line.
\<close>

fun match_sdk_version :: "bool \<Rightarrow> string \<Rightarrow> string option" where
  "match_sdk_version bol [] = None"
| "match_sdk_version bol (c # cs) =
     (case (if bol \<and> prefix ''sdk-version:'' (c # cs) then capture_after (drop 12 (c # cs))
            else None) of
        Some captured \<Rightarrow> Some captured
      | None \<Rightarrow> match_sdk_version (is_line_terminator c) cs)"

definition parseSdkVersion :: "string \<Rightarrow> string option" where
  "parseSdkVersion yamlContent =
     (case match_sdk_version True yamlContent of
        None \<Rightarrow> None
      | Some captured \<Rightarrow> if captured = [] then None else Some (trim captured))"

text \<open>
  \<^verbatim>\<open>compareSemver\<close>: \<open>None\<close> is the result \<^verbatim>\<open>NaN\<close>, which \<^verbatim>\<open>na - nb\<close> is when the two
  differ and one of them is \<^verbatim>\<open>NaN\<close> (\<^verbatim>\<open>NaN !== NaN\<close> holds). A missing component is
  \<^verbatim>\<open>undefined\<close>, replaced by \<open>0\<close>.
\<close>

definition component :: "string list \<Rightarrow> nat \<Rightarrow> int option" where
  "component parts i = (if i < length parts then Number (parts ! i) else Some 0)"

fun compare_components :: "string list \<Rightarrow> string list \<Rightarrow> nat list \<Rightarrow> int option" where
  "compare_components pa pb [] = Some 0"
| "compare_components pa pb (i # rest) =
     (case (component pa i, component pb i) of
        (Some na, Some nb) \<Rightarrow> if na \<noteq> nb then Some (na - nb) else compare_components pa pb rest
      | _ \<Rightarrow> None)"

definition compareSemver :: "string \<Rightarrow> string \<Rightarrow> int option" where
  "compareSemver a b = compare_components (js_split CHR ''.'' a) (js_split CHR ''.'' b) [0, 1, 2]"

text \<open>
  \<^verbatim>\<open>versions.sort(compareSemver)\<close>. ECMAScript requires the sort to be stable, reads a
  comparator result \<^verbatim>\<open>NaN\<close> as \<open>0\<close>, and fixes the result when the comparator orders the
  elements consistently; with an inconsistent comparator the order is left to the
  implementation. The embedding is the stable insertion sort, which is the required
  result in the first case.
\<close>

fun insert_by :: "('a \<Rightarrow> 'a \<Rightarrow> int option) \<Rightarrow> 'a \<Rightarrow> 'a list \<Rightarrow> 'a list" where
  "insert_by cmp x [] = [x]"
| "insert_by cmp x (y # ys) =
     (if (case cmp y x of None \<Rightarrow> False | Some d \<Rightarrow> d > 0) then x # y # ys
      else y # insert_by cmp x ys)"

definition sort_by :: "('a \<Rightarrow> 'a \<Rightarrow> int option) \<Rightarrow> 'a list \<Rightarrow> 'a list" where
  "sort_by cmp xs = foldl (\<lambda>acc x. insert_by cmp x acc) [] xs"

text \<open>\<^verbatim>\<open>[...new Set(versions)]\<close>: the first occurrence of each element, in order.\<close>

definition unique :: "'a list \<Rightarrow> 'a list" where
  "unique xs = rev (remdups (rev xs))"

text \<open>
  The loop over the \<^verbatim>\<open>daml.yaml\<close> files of the tree: one \<^verbatim>\<open>getFileContent\<close> call per
  path, in order; a call that throws ends the collector. A content that is \<^verbatim>\<open>null\<close> or
  empty, or a version that is empty, is skipped.
\<close>

fun scan_versions ::
  "(string \<Rightarrow> string \<Rightarrow> string \<Rightarrow> thrown + string option) \<Rightarrow> string \<Rightarrow> string \<Rightarrow> string list \<Rightarrow>
     string list \<Rightarrow> thrown + string list" where
  "scan_versions client_getFileContent owner repo [] versions = Inr versions"
| "scan_versions client_getFileContent owner repo (p # ps) versions =
     (case client_getFileContent owner repo p of
        Inl error \<Rightarrow> Inl error
      | Inr fileContent \<Rightarrow>
          (if fileContent \<noteq> None \<and> fileContent \<noteq> Some []
           then
             (case parseSdkVersion (the fileContent) of
                Some v \<Rightarrow>
                  if v \<noteq> [] then scan_versions client_getFileContent owner repo ps (versions @ [v])
                  else scan_versions client_getFileContent owner repo ps versions
              | None \<Rightarrow> scan_versions client_getFileContent owner repo ps versions)
           else scan_versions client_getFileContent owner repo ps versions))"

record SdkResult =
  canton_sdk_version :: "string option"

text \<open>The \<^verbatim>\<open>daml.yaml\<close> files below the root, as the fallback lists them.\<close>

definition damlYamls :: "TreeEntry list \<Rightarrow> string list" where
  "damlYamls tree =
     map path (filter (\<lambda>e. type e = ''blob'' \<and> endsWith (path e) ''/daml.yaml'') tree)"

definition collectSdkVersion ::
  "(string \<Rightarrow> string \<Rightarrow> string \<Rightarrow> thrown + string option) \<Rightarrow> string \<Rightarrow> string \<Rightarrow> TreeEntry list \<Rightarrow>
     string list \<Rightarrow> thrown + (SdkResult \<times> string list)" where
  "collectSdkVersion client_getFileContent owner repo tree notes =
     (case client_getFileContent owner repo ''daml.yaml'' of
        Inl error \<Rightarrow> Inl error
      | Inr content \<Rightarrow>
          if content \<noteq> None \<and> content \<noteq> Some []
          then
            (case parseSdkVersion (the content) of
               Some version \<Rightarrow>
                 if version \<noteq> [] then Inr (\<lparr>canton_sdk_version = Some version\<rparr>, notes)
                 else Inr (\<lparr>canton_sdk_version = None\<rparr>, notes @ [''Could not parse daml.yaml''])
             | None \<Rightarrow> Inr (\<lparr>canton_sdk_version = None\<rparr>, notes @ [''Could not parse daml.yaml'']))
          else
            if length (damlYamls tree) = 0 then Inr (\<lparr>canton_sdk_version = None\<rparr>, notes)
            else
                 (case scan_versions client_getFileContent owner repo (damlYamls tree) [] of
                    Inl error \<Rightarrow> Inl error
                  | Inr versions \<Rightarrow>
                      if length versions = 0
                      then Inr (\<lparr>canton_sdk_version = None\<rparr>,
                                notes @ [''Could not parse any daml.yaml files''])
                      else
                        let notes' =
                              (if length versions > 1 \<and> length (unique versions) > 1
                               then notes @ [''Multiple SDK versions detected: '' @
                                             join '', '' (unique versions)]
                               else notes)
                        in Inr (\<lparr>canton_sdk_version = Some (last (sort_by compareSemver versions))\<rparr>,
                                notes')))"

subsection \<open>Tech stack\<close>
















subsection \<open>The order on versions, in the words of the specification\<close>

text \<open>
  The specification speaks of the highest semantic version under a ``numeric triple
  compare, missing components treated as 0'', and has a component with a pre-release or
  build suffix count as zero. \<open>version_triple\<close> reads the first three dot-separated
  components of a version as decimal numerals, \<open>0\<close> for one that is missing or is no
  numeral, and \<open>version_le\<close> compares two triples lexicographically. \<open>plain_version\<close> says
  that each of the first three components is a decimal numeral that \<^verbatim>\<open>Number\<close> reads
  exactly: digits only (the empty component is \<open>0\<close>), below \<open>2 ^ 53\<close>.
\<close>

definition version_component :: "string \<Rightarrow> nat \<Rightarrow> int" where
  "version_component v i =
     (let parts = js_split CHR ''.'' v
      in if i < length parts \<and> list_all is_digit (parts ! i) then int_of_digits (parts ! i)
         else 0)"

definition version_triple :: "string \<Rightarrow> int \<times> int \<times> int" where
  "version_triple v = (version_component v 0, version_component v 1, version_component v 2)"

definition version_le :: "string \<Rightarrow> string \<Rightarrow> bool" where
  "version_le a b =
     (case (version_triple a, version_triple b) of
        ((a0, a1, a2), (b0, b1, b2)) \<Rightarrow>
          a0 < b0 \<or> (a0 = b0 \<and> (a1 < b1 \<or> (a1 = b1 \<and> a2 \<le> b2))))"

definition plain_version :: "string \<Rightarrow> bool" where
  "plain_version v =
     list_all (\<lambda>part. list_all is_digit part \<and> int_of_digits part < 9007199254740992)
       (take 3 (js_split CHR ''.'' v))"

text \<open>
  The version strings a scan finds, given the content of each file (\<open>None\<close> for a file
  that does not exist): those \<^verbatim>\<open>parseSdkVersion\<close> reads and that are not empty, in the
  order of the paths.
\<close>

definition found_versions :: "(string \<Rightarrow> string option) \<Rightarrow> string list \<Rightarrow> string list" where
  "found_versions contents paths =
     concat (map (\<lambda>p. case contents p of
                          None \<Rightarrow> []
                        | Some c \<Rightarrow>
                            (case parseSdkVersion c of
                               None \<Rightarrow> []
                             | Some v \<Rightarrow> if v = [] then [] else [v]))
                 paths)"

section \<open>The dataset validator (scripts/validate-data.ts)\<close>

subsection \<open>JavaScript values from \<^verbatim>\<open>JSON.parse\<close>\<close>

text \<open>
  \<^verbatim>\<open>validateDataset\<close> takes \<^verbatim>\<open>data: unknown\<close>, in the command-line entry point the result
  of \<^verbatim>\<open>JSON.parse\<close>, and casts it to \<^verbatim>\<open>ObservatoryProject[]\<close> without a check. The
  embedding therefore works on JSON values and follows what JavaScript does with
  them, a \<^verbatim>\<open>TypeError\<close> included. An object is the list of its own properties in the
  order \<^verbatim>\<open>Object.keys\<close> enumerates them (the keys are distinct in a parsed object). A
  number is an integer here, exact below \<open>2 ^ 53\<close>; every numeric field of a project
  holds one.
\<close>

datatype json =
  JNull | JBool bool | JNum int | JStr string | JArr "json list" | JObj "(string \<times> json) list"

datatype exn = TypeError

text \<open>
  Reading one of the properties the source names (\<^verbatim>\<open>p.project_id\<close>, \<^verbatim>\<open>p.partnerships\<close>,
  \<^verbatim>\<open>p.data_confidence\<close>, \<^verbatim>\<open>record[field]\<close> for the date fields): \<^verbatim>\<open>null\<close> has no
  properties, an object has its own, and no built-in prototype has a property of one of
  these names, so for every other value the result is \<^verbatim>\<open>undefined\<close>, which is \<open>None\<close>.
\<close>

fun read_field :: "json \<Rightarrow> string \<Rightarrow> exn + json option" where
  "read_field JNull name = Inl TypeError"
| "read_field (JObj props) name = Inr (map_of props name)"
| "read_field (JBool b) name = Inr None"
| "read_field (JNum n) name = Inr None"
| "read_field (JStr s) name = Inr None"
| "read_field (JArr xs) name = Inr None"

text \<open>
  \<^verbatim>\<open>record[key]\<close> and \<^verbatim>\<open>key in record\<close> for an arbitrary key of an object: the own
  property, else the one inherited from \<^verbatim>\<open>Object.prototype\<close> (a function or an object,
  never \<^verbatim>\<open>null\<close>), else \<^verbatim>\<open>undefined\<close>.
\<close>

datatype property = Undefined | Own json | From_prototype

definition lookup :: "(string \<times> json) list \<Rightarrow> string \<Rightarrow> property" where
  "lookup props key =
     (case map_of props key of
        Some v \<Rightarrow> Own v
      | None \<Rightarrow> if key \<in> set Object_prototype_keys then From_prototype else Undefined)"

definition has_property :: "(string \<times> json) list \<Rightarrow> string \<Rightarrow> bool" where
  "has_property props key = (lookup props key \<noteq> Undefined)"

text \<open>
  \<^verbatim>\<open>String(v)\<close>, as a template literal and \<^verbatim>\<open>RegExp.prototype.test\<close> apply it. An array
  joins its elements with commas, \<^verbatim>\<open>null\<close> elements as the empty string. An object is
  \<^verbatim>\<open>[object Object]\<close>, unless it has an own property \<^verbatim>\<open>toString\<close>: a parsed value is
  not callable, so the conversion finds no method that returns a primitive and throws.
\<close>

fun to_string :: "json \<Rightarrow> exn + string"
  and join_elements :: "json list \<Rightarrow> exn + string" where
  "to_string JNull = Inr ''null''"
| "to_string (JBool b) = Inr (if b then ''true'' else ''false'')"
| "to_string (JNum n) = Inr (string_of_int n)"
| "to_string (JStr s) = Inr s"
| "to_string (JArr xs) = join_elements xs"
| "to_string (JObj props) =
     (if ''toString'' \<in> set (map fst props) then Inl TypeError else Inr ''[object Object]'')"
| "join_elements [] = Inr []"
| "join_elements (x # xs) =
     (case (if x = JNull then Inr [] else to_string x) of
        Inl e \<Rightarrow> Inl e
      | Inr s \<Rightarrow>
          if xs = [] then Inr s
          else (case join_elements xs of Inl e \<Rightarrow> Inl e | Inr rest \<Rightarrow> Inr (s @ '','' @ rest)))"

definition String :: "json option \<Rightarrow> exn + string" where
  "String v = (case v of None \<Rightarrow> Inr ''undefined'' | Some j \<Rightarrow> to_string j)"

text \<open>
  \<^verbatim>\<open>Set.prototype.has\<close> compares with SameValueZero: primitives by value, objects and
  arrays by identity, and two values of a parsed document are never the same object.
\<close>

fun is_primitive :: "json \<Rightarrow> bool" where
  "is_primitive (JArr xs) = False"
| "is_primitive (JObj props) = False"
| "is_primitive JNull = True"
| "is_primitive (JBool b) = True"
| "is_primitive (JNum n) = True"
| "is_primitive (JStr s) = True"

definition same_value_zero :: "json option \<Rightarrow> json option \<Rightarrow> bool" where
  "same_value_zero x y =
     (case (x, y) of
        (None, None) \<Rightarrow> True
      | (Some a, Some b) \<Rightarrow> is_primitive a \<and> a = b
      | _ \<Rightarrow> False)"

definition has :: "json option list \<Rightarrow> json option \<Rightarrow> bool" where
  "has elements x = list_ex (same_value_zero x) elements"

text \<open>
  \<^verbatim>\<open>for (const x of v)\<close>: an array gives its elements and a string its characters; any
  other value is not iterable.
\<close>

fun iterate :: "json option \<Rightarrow> exn + json list" where
  "iterate (Some (JArr xs)) = Inr xs"
| "iterate (Some (JStr s)) = Inr (map (\<lambda>c. JStr [c]) s)"
| "iterate (Some JNull) = Inl TypeError"
| "iterate (Some (JBool b)) = Inl TypeError"
| "iterate (Some (JNum n)) = Inl TypeError"
| "iterate (Some (JObj props)) = Inl TypeError"
| "iterate None = Inl TypeError"

text \<open>
  \<^verbatim>\<open>Object.entries(v)\<close> (and \<^verbatim>\<open>Object.keys\<close>, its first components): the own properties
  of an object, the indexed elements of an array or string, nothing for a number or a
  boolean; \<^verbatim>\<open>null\<close> and \<^verbatim>\<open>undefined\<close> cannot be converted to an object.
\<close>

definition indexed :: "'a list \<Rightarrow> (string \<times> 'a) list" where
  "indexed xs = zip (map string_of_nat [0..<length xs]) xs"

fun entries :: "json option \<Rightarrow> exn + (string \<times> json) list" where
  "entries (Some (JObj props)) = Inr props"
| "entries (Some (JArr xs)) = Inr (indexed xs)"
| "entries (Some (JStr s)) = Inr (indexed (map (\<lambda>c. JStr [c]) s))"
| "entries (Some (JNum n)) = Inr []"
| "entries (Some (JBool b)) = Inr []"
| "entries (Some JNull) = Inl TypeError"
| "entries None = Inl TypeError"

text \<open>
  A loop that pushes error strings for each element in turn: the errors of the elements,
  concatenated in order, unless the body throws.
\<close>

fun for_each :: "('a \<Rightarrow> exn + string list) \<Rightarrow> 'a list \<Rightarrow> exn + string list" where
  "for_each body [] = Inr []"
| "for_each body (x # xs) =
     (case body x of
        Inl e \<Rightarrow> Inl e
      | Inr errs \<Rightarrow>
          (case for_each body xs of Inl e \<Rightarrow> Inl e | Inr rest \<Rightarrow> Inr (errs @ rest)))"

definition quoted :: "string \<Rightarrow> string" where
  "quoted s = [CHR 0x22] @ s @ [CHR 0x22]"

subsection \<open>The schema validator\<close>

record ValidationResult =
  valid :: bool
  errors :: "string list"

text \<open>
  An error object of Ajv, as far as \<^verbatim>\<open>createValidator\<close> reads it; \<^verbatim>\<open>message\<close> may be
  absent.
\<close>

record ErrorObject =
  instancePath :: string
  error_message :: "string option"

text \<open>
  \<^verbatim>\<open>createValidator\<close> compiles \<^verbatim>\<open>data/schema.json\<close>, which is not among the sources. The
  compiled function is the parameter \<open>validate\<close>: it gives the verdict of
  \<^verbatim>\<open>validate(data)\<close> and the value of \<^verbatim>\<open>validate.errors\<close> afterwards (\<open>None\<close> for
  \<^verbatim>\<open>null\<close>).
\<close>

type_synonym validate_function = "json \<Rightarrow> bool \<times> ErrorObject list option"

definition createValidator :: "validate_function \<Rightarrow> json \<Rightarrow> ValidationResult" where
  "createValidator validate dataset =
     (case validate dataset of
        (True, validate_errors) \<Rightarrow> \<lparr>valid = True, errors = []\<rparr>
      | (False, validate_errors) \<Rightarrow>
          \<lparr>valid = False,
           errors =
             map (\<lambda>e. (if instancePath e = [] then ''(root)'' else instancePath e) @ '': '' @
                       (case error_message e of None \<Rightarrow> ''unknown error'' | Some m \<Rightarrow> m))
                 (case validate_errors of None \<Rightarrow> [] | Some es \<Rightarrow> es)\<rparr>)"

subsection \<open>The cross-reference checks\<close>

definition OBSERVATORY_MANAGED_FIELDS :: "string list" where
  "OBSERVATORY_MANAGED_FIELDS =
     [''project_id'', ''category'', ''created_at'', ''updated_at'', ''claimed'', ''claimed_by'',
      ''claimed_at'', ''data_confidence'', ''last_auto_refresh'', ''notes'', ''partnerships'']"

text \<open>\<^verbatim>\<open>checkUniqueIds\<close>; \<open>seen\<close> is the set, as the list of what was added.\<close>

fun checkUniqueIds_from :: "json option list \<Rightarrow> json list \<Rightarrow> exn + string list" where
  "checkUniqueIds_from seen [] = Inr []"
| "checkUniqueIds_from seen (p # ps) =
     (case read_field p ''project_id'' of
        Inl e \<Rightarrow> Inl e
      | Inr project_id \<Rightarrow>
          (case (if has seen project_id
                 then (case String project_id of
                         Inl e \<Rightarrow> Inl e
                       | Inr s \<Rightarrow> Inr [''Duplicate project_id: '' @ quoted s])
                 else Inr []) of
             Inl e \<Rightarrow> Inl e
           | Inr errs \<Rightarrow>
               (case checkUniqueIds_from (seen @ [project_id]) ps of
                  Inl e \<Rightarrow> Inl e
                | Inr rest \<Rightarrow> Inr (errs @ rest))))"

definition checkUniqueIds :: "json list \<Rightarrow> exn + string list" where
  "checkUniqueIds projects = checkUniqueIds_from [] projects"

text \<open>
  \<^verbatim>\<open>/^[a-z0-9]([a-z0-9-]*[a-z0-9])?$/\<close>: a non-empty string of lower-case letters, digits
  and hyphens that neither starts nor ends with a hyphen.
\<close>

definition is_lower_alnum :: "char \<Rightarrow> bool" where
  "is_lower_alnum c = ((CHR ''a'' \<le> c \<and> c \<le> CHR ''z'') \<or> is_digit c)"

definition id_pattern :: "string \<Rightarrow> bool" where
  "id_pattern s =
     (s \<noteq> [] \<and> is_lower_alnum (hd s) \<and> is_lower_alnum (last s) \<and>
      list_all (\<lambda>c. is_lower_alnum c \<or> c = CHR ''-'') s)"

definition checkIdFormat :: "json list \<Rightarrow> exn + string list" where
  "checkIdFormat projects =
     for_each (\<lambda>p.
        case read_field p ''project_id'' of
          Inl e \<Rightarrow> Inl e
        | Inr project_id \<Rightarrow>
            (case String project_id of
               Inl e \<Rightarrow> Inl e
             | Inr s \<Rightarrow>
                 if \<not> id_pattern s
                 then Inr [''Invalid project_id format: '' @ quoted s @
                           '' (must be lowercase alphanumeric with hyphens)'']
                 else Inr []))
       projects"

text \<open>
  \<^verbatim>\<open>checkPartnershipRefs\<close>: \<open>ids\<close> is built from every project before the loop starts.
\<close>

fun project_ids :: "json list \<Rightarrow> exn + json option list" where
  "project_ids [] = Inr []"
| "project_ids (p # ps) =
     (case read_field p ''project_id'' of
        Inl e \<Rightarrow> Inl e
      | Inr project_id \<Rightarrow>
          (case project_ids ps of Inl e \<Rightarrow> Inl e | Inr rest \<Rightarrow> Inr (project_id # rest)))"

definition partnership_errors :: "json option list \<Rightarrow> json \<Rightarrow> exn + string list" where
  "partnership_errors ids p =
     (case read_field p ''partnerships'' of
        Inl e \<Rightarrow> Inl e
      | Inr partnerships \<Rightarrow>
          (case iterate partnerships of
             Inl e \<Rightarrow> Inl e
           | Inr partners \<Rightarrow>
               for_each (\<lambda>partner.
                  if \<not> has ids (Some partner)
                  then
                    (case read_field p ''project_id'' of
                       Inl e \<Rightarrow> Inl e
                     | Inr project_id \<Rightarrow>
                         (case String project_id of
                            Inl e \<Rightarrow> Inl e
                          | Inr s \<Rightarrow>
                              (case to_string partner of
                                 Inl e \<Rightarrow> Inl e
                               | Inr t \<Rightarrow>
                                   Inr [''Project '' @ quoted s @
                                        '' references unknown partnership: '' @ quoted t])))
                  else Inr [])
                 partners))"

definition checkPartnershipRefs :: "json list \<Rightarrow> exn + string list" where
  "checkPartnershipRefs projects =
     (case project_ids projects of
        Inl e \<Rightarrow> Inl e
      | Inr ids \<Rightarrow> for_each (partnership_errors ids) projects)"

text \<open>
  \<^verbatim>\<open>checkConfidenceKeys\<close>, for one project. When \<^verbatim>\<open>Object.keys(p.data_confidence)\<close> has
  not thrown, \<open>p\<close> is an object, since only an object has a \<^verbatim>\<open>data_confidence\<close>: \<open>props\<close>
  are its properties. The first loop looks at the keys, the second at the entries.
\<close>

definition project_name :: "json \<Rightarrow> exn + string" where
  "project_name p =
     (case read_field p ''project_id'' of Inl e \<Rightarrow> Inl e | Inr project_id \<Rightarrow> String project_id)"

definition confidence_key_errors :: "json \<Rightarrow> (string \<times> json) list \<Rightarrow> string \<Rightarrow> exn + string list" where
  "confidence_key_errors p props key =
     (if key \<in> set OBSERVATORY_MANAGED_FIELDS
      then
        (case project_name p of
           Inl e \<Rightarrow> Inl e
         | Inr s \<Rightarrow>
             Inr [''Project '' @ quoted s @ '': confidence key '' @ quoted key @
                  '' is observatory-managed''])
      else if \<not> has_property props key
      then
        (case project_name p of
           Inl e \<Rightarrow> Inl e
         | Inr s \<Rightarrow>
             Inr [''Project '' @ quoted s @ '': confidence key '' @ quoted key @
                  '' does not match any project field''])
      else Inr [])"

definition confidence_entry_errors ::
  "json \<Rightarrow> (string \<times> json) list \<Rightarrow> string \<times> json \<Rightarrow> exn + string list" where
  "confidence_entry_errors p props entry =
     (case entry of
        (key, tier) \<Rightarrow>
          if lookup props key = Own JNull \<and> tier \<noteq> JNull
          then
            (case project_name p of
               Inl e \<Rightarrow> Inl e
             | Inr s \<Rightarrow>
                 (case to_string tier of
                    Inl e \<Rightarrow> Inl e
                  | Inr t \<Rightarrow>
                      Inr [''Project '' @ quoted s @ '': field '' @ quoted key @
                           '' is null but confidence is '' @ quoted t]))
          else Inr [])"

definition props_of :: "json \<Rightarrow> (string \<times> json) list" where
  "props_of p = (case p of JObj props \<Rightarrow> props | _ \<Rightarrow> [])"

definition confidence_errors :: "json \<Rightarrow> exn + string list" where
  "confidence_errors p =
     (case read_field p ''data_confidence'' of
        Inl e \<Rightarrow> Inl e
      | Inr data_confidence \<Rightarrow>
          (case entries data_confidence of
             Inl e \<Rightarrow> Inl e
           | Inr confidence \<Rightarrow>
               (case for_each (confidence_key_errors p (props_of p)) (map fst confidence) of
                  Inl e \<Rightarrow> Inl e
                | Inr key_errors \<Rightarrow>
                    (case for_each (confidence_entry_errors p (props_of p)) confidence of
                       Inl e \<Rightarrow> Inl e
                     | Inr entry_errors \<Rightarrow> Inr (key_errors @ entry_errors)))))"

definition checkConfidenceKeys :: "json list \<Rightarrow> exn + string list" where
  "checkConfidenceKeys projects = for_each confidence_errors projects"

text \<open>\<^verbatim>\<open>checkDateFields\<close>; \<open>kind\<close> is the word of the message, \<^verbatim>\<open>date\<close> or \<^verbatim>\<open>datetime\<close>.\<close>

definition dateFields :: "string list" where
  "dateFields = [''last_verified_activity'', ''launch_date'', ''onchain_since'']"

definition datetimeFields :: "string list" where
  "datetimeFields = [''created_at'', ''updated_at'', ''claimed_at'', ''last_auto_refresh'']"

definition date_field_errors :: "date_parser \<Rightarrow> string \<Rightarrow> json \<Rightarrow> string \<Rightarrow> exn + string list" where
  "date_field_errors Date_parse kind p field =
     (case read_field p field of
        Inl e \<Rightarrow> Inl e
      | Inr (Some (JStr val)) \<Rightarrow>
          if Date_parse val = None
          then
            (case project_name p of
               Inl e \<Rightarrow> Inl e
             | Inr s \<Rightarrow>
                 Inr [''Project '' @ quoted s @ '': invalid '' @ kind @ '' in '' @ quoted field @
                      '': '' @ quoted val])
          else Inr []
      | Inr other \<Rightarrow> Inr [])"

definition date_errors :: "date_parser \<Rightarrow> json \<Rightarrow> exn + string list" where
  "date_errors Date_parse p =
     (case for_each (date_field_errors Date_parse ''date'' p) dateFields of
        Inl e \<Rightarrow> Inl e
      | Inr errs \<Rightarrow>
          (case for_each (date_field_errors Date_parse ''datetime'' p) datetimeFields of
             Inl e \<Rightarrow> Inl e
           | Inr rest \<Rightarrow> Inr (errs @ rest)))"

definition checkDateFields :: "date_parser \<Rightarrow> json list \<Rightarrow> exn + string list" where
  "checkDateFields Date_parse projects = for_each (date_errors Date_parse) projects"

subsection \<open>\<^verbatim>\<open>validateDataset\<close>\<close>

text \<open>
  The five checks run in the order of the source; the first that throws ends the call
  with its exception, as nothing catches it. \<open>dataset\<close> is the argument \<^verbatim>\<open>data\<close>.
\<close>

definition cross_reference_errors :: "date_parser \<Rightarrow> json list \<Rightarrow> exn + string list" where
  "cross_reference_errors Date_parse projects =
     (case checkUniqueIds projects of
        Inl e \<Rightarrow> Inl e
      | Inr e1 \<Rightarrow>
     (case checkIdFormat projects of
        Inl e \<Rightarrow> Inl e
      | Inr e2 \<Rightarrow>
     (case checkPartnershipRefs projects of
        Inl e \<Rightarrow> Inl e
      | Inr e3 \<Rightarrow>
     (case checkConfidenceKeys projects of
        Inl e \<Rightarrow> Inl e
      | Inr e4 \<Rightarrow>
     (case checkDateFields Date_parse projects of
        Inl e \<Rightarrow> Inl e
      | Inr e5 \<Rightarrow> Inr (e1 @ e2 @ e3 @ e4 @ e5))))))"

definition validateDataset :: "validate_function \<Rightarrow> date_parser \<Rightarrow> json \<Rightarrow> exn + ValidationResult" where
  "validateDataset validate Date_parse dataset =
     (let schemaResult = createValidator validate dataset;
          allErrors = errors schemaResult
      in case dataset of
           JArr projects \<Rightarrow>
             (case cross_reference_errors Date_parse projects of
                Inl e \<Rightarrow> Inl e
              | Inr crossErrors \<Rightarrow>
                  Inr \<lparr>valid = (length (allErrors @ crossErrors) = 0),
                       errors = allErrors @ crossErrors\<rparr>)
         | _ \<Rightarrow> Inr \<lparr>valid = False, errors = allErrors\<rparr>)"

subsection \<open>The schema\<close>

definition VALID_CATEGORIES :: "string list" where
  "VALID_CATEGORIES =
     [''tokenized-assets'', ''data-analytics'', ''naas'', ''developer-tools'', ''wallets'',
      ''exchanges'', ''liquidity'', ''interoperability'', ''forensics-security'', ''custody'',
      ''stablecoins'', ''payments'', ''financing'', ''compliance'']"

definition is_string :: "json \<Rightarrow> bool" where
  "is_string j = (case j of JStr s \<Rightarrow> True | _ \<Rightarrow> False)"

definition is_boolean :: "json \<Rightarrow> bool" where
  "is_boolean j = (case j of JBool b \<Rightarrow> True | _ \<Rightarrow> False)"

definition is_number :: "json \<Rightarrow> bool" where
  "is_number j = (case j of JNum n \<Rightarrow> True | _ \<Rightarrow> False)"

definition nullable :: "(json \<Rightarrow> bool) \<Rightarrow> json \<Rightarrow> bool" where
  "nullable constraint j = (j = JNull \<or> constraint j)"

definition one_of :: "string list \<Rightarrow> json \<Rightarrow> bool" where
  "one_of allowed j = (case j of JStr s \<Rightarrow> s \<in> set allowed | _ \<Rightarrow> False)"

definition array_of :: "(json \<Rightarrow> bool) \<Rightarrow> json \<Rightarrow> bool" where
  "array_of constraint j = (case j of JArr xs \<Rightarrow> list_all constraint xs | _ \<Rightarrow> False)"

definition required :: "(string \<times> json) list \<Rightarrow> string \<Rightarrow> (json \<Rightarrow> bool) \<Rightarrow> bool" where
  "required props name constraint = (case map_of props name of None \<Rightarrow> False | Some v \<Rightarrow> constraint v)"

text \<open>
  Modelled from the spec: the schema document \<^verbatim>\<open>data/schema.json\<close>, which
  \<^verbatim>\<open>createValidator\<close> compiles, is not among the sources. The specification describes it
  as structural conformance to the project record: types, enumerations, required
  fields, string length and numeric minimums. \<open>project_schema\<close> lists every field of
  \<^verbatim>\<open>ObservatoryProject\<close> (scripts/types.ts) as required, with its declared type and the
  constraints the specification names: a description of at most 280 characters, a
  non-empty category list drawn from the category enumeration, a security audit that is
  absent or has its auditor, date, report URL and scope, a test count that is not
  negative, and a confidence map from field name to tier or null.
\<close>

definition security_audit_schema :: "json \<Rightarrow> bool" where
  "security_audit_schema j =
     (case j of
        JObj props \<Rightarrow>
          required props ''auditor'' is_string \<and> required props ''date'' is_string \<and>
          required props ''report_url'' (nullable is_string) \<and> required props ''scope'' is_string
      | _ \<Rightarrow> False)"

definition data_confidence_schema :: "json \<Rightarrow> bool" where
  "data_confidence_schema j =
     (case j of
        JObj props \<Rightarrow>
          list_all (\<lambda>(key, tier).
             nullable (one_of [''verified'', ''self_reported'', ''auto_detected'']) tier) props
      | _ \<Rightarrow> False)"

definition project_schema :: "(string \<times> (json \<Rightarrow> bool)) list" where
  "project_schema =
     [(''project_id'', is_string),
      (''display_name'', is_string),
      (''entity_name'', nullable is_string),
      (''entity_jurisdiction'', nullable is_string),
      (''foundation_member'', is_boolean),
      (''validator_status'', one_of [''super_validator'', ''validator'', ''app_provider'', ''none'']),
      (''website_url'', nullable is_string),
      (''contact_url'', nullable is_string),
      (''description'', \<lambda>j. case j of JStr s \<Rightarrow> length s \<le> 280 | _ \<Rightarrow> False),
      (''category'', \<lambda>j. j \<noteq> JArr [] \<and> array_of (one_of VALID_CATEGORIES) j),
      (''partnerships'', array_of is_string),
      (''status'', one_of [''production'', ''testnet'', ''development'', ''inactive'', ''unknown'']),
      (''network'', array_of (one_of [''mainnet'', ''devnet''])),
      (''canton_sdk_version'', nullable is_string),
      (''last_verified_activity'', nullable is_string),
      (''launch_date'', nullable is_string),
      (''featured_app'', nullable is_boolean),
      (''open_source'', is_boolean),
      (''repo_url'', nullable is_string),
      (''license_type'', nullable is_string),
      (''security_audit'', nullable security_audit_schema),
      (''has_tests'', nullable is_boolean),
      (''test_count'', nullable (\<lambda>j. case j of JNum n \<Rightarrow> 0 \<le> n | _ \<Rightarrow> False)),
      (''has_ci'', nullable is_boolean),
      (''ci_status'', nullable (one_of [''passing'', ''failing'', ''stale'', ''unknown''])),
      (''has_documentation'', is_boolean),
      (''documentation_url'', nullable is_string),
      (''tech_stack'', array_of is_string),
      (''tx_count_30d'', nullable is_number),
      (''tx_count_90d'', nullable is_number),
      (''unique_parties_30d'', nullable is_number),
      (''cc_burned_30d'', nullable is_number),
      (''featured_markers_30d'', nullable is_number),
      (''onchain_since'', nullable is_string),
      (''created_at'', is_string),
      (''updated_at'', is_string),
      (''claimed'', is_boolean),
      (''claimed_by'', nullable is_string),
      (''claimed_at'', nullable is_string),
      (''data_confidence'', data_confidence_schema),
      (''last_auto_refresh'', nullable is_string),
      (''notes'', nullable is_string)]"

text \<open>
  Modelled from the spec: the function Ajv compiles from that schema. It reports every
  violation (\<^verbatim>\<open>allErrors\<close>), each with the path of the offending value: a dataset that
  is no array, an element that is no object, a required property that is missing, a
  property whose value breaks its constraint.
\<close>

definition property_errors :: "string \<Rightarrow> (string \<times> json) list \<Rightarrow> string \<times> (json \<Rightarrow> bool) \<Rightarrow> ErrorObject list" where
  "property_errors at props rule =
     (case rule of
        (name, constraint) \<Rightarrow>
          (case map_of props name of
             None \<Rightarrow>
               [\<lparr>instancePath = at,
                 error_message = Some (''must have required property '' @ name)\<rparr>]
           | Some v \<Rightarrow>
               if constraint v then []
               else [\<lparr>instancePath = at @ ''/'' @ name,
                      error_message = Some ''must match the schema''\<rparr>]))"

definition element_errors :: "nat \<times> json \<Rightarrow> ErrorObject list" where
  "element_errors element =
     (case element of
        (i, JObj props) \<Rightarrow>
          concat (map (property_errors (''/'' @ string_of_nat i) props) project_schema)
      | (i, other) \<Rightarrow>
          [\<lparr>instancePath = ''/'' @ string_of_nat i, error_message = Some ''must be object''\<rparr>])"

definition schema_errors :: "json \<Rightarrow> ErrorObject list" where
  "schema_errors dataset =
     (case dataset of
        JArr projects \<Rightarrow> concat (map element_errors (zip [0..<length projects] projects))
      | _ \<Rightarrow> [\<lparr>instancePath = [], error_message = Some ''must be array''\<rparr>])"

definition schema_validate :: validate_function where
  "schema_validate dataset =
     (if schema_errors dataset = [] then (True, None) else (False, Some (schema_errors dataset)))"

subsection \<open>The minimal project of the test suite\<close>

text \<open>
  \<^verbatim>\<open>makeMinimalProject(overrides)\<close> of \<^verbatim>\<open>tests/validate-data.test.ts\<close>: the object
  literal of the test suite, with the properties of \<open>overrides\<close> spread over it (a
  property the literal has keeps its place and takes the new value, a new one is added
  at the end). The tests expect the project without overrides to pass the schema
  (``valid minimal project passes validation'') and \<^verbatim>\<open>checkConfidenceKeys\<close> (``valid
  confidence map passes'').
\<close>

definition minimal_data_confidence :: "(string \<times> json) list" where
  "minimal_data_confidence =
     [(''display_name'', JStr ''verified''),
      (''entity_name'', JNull),
      (''entity_jurisdiction'', JNull),
      (''foundation_member'', JStr ''verified''),
      (''validator_status'', JStr ''verified''),
      (''website_url'', JNull),
      (''contact_url'', JNull),
      (''description'', JStr ''verified''),
      (''status'', JStr ''verified''),
      (''network'', JNull),
      (''canton_sdk_version'', JNull),
      (''last_verified_activity'', JNull),
      (''launch_date'', JNull),
      (''featured_app'', JNull),
      (''open_source'', JStr ''verified''),
      (''repo_url'', JNull),
      (''license_type'', JNull),
      (''security_audit'', JNull),
      (''has_tests'', JNull),
      (''test_count'', JNull),
      (''has_ci'', JNull),
      (''ci_status'', JNull),
      (''has_documentation'', JStr ''verified''),
      (''documentation_url'', JNull),
      (''tech_stack'', JNull),
      (''tx_count_30d'', JNull),
      (''tx_count_90d'', JNull),
      (''unique_parties_30d'', JNull),
      (''cc_burned_30d'', JNull),
      (''featured_markers_30d'', JNull),
      (''onchain_since'', JNull)]"

definition minimal_project_properties :: "(string \<times> json) list" where
  "minimal_project_properties =
     [(''project_id'', JStr ''test-project''),
      (''display_name'', JStr ''Test Project''),
      (''entity_name'', JNull),
      (''entity_jurisdiction'', JNull),
      (''foundation_member'', JBool False),
      (''validator_status'', JStr ''none''),
      (''website_url'', JNull),
      (''contact_url'', JNull),
      (''description'', JStr ''A test project''),
      (''category'', JArr [JStr ''developer-tools'']),
      (''partnerships'', JArr []),
      (''status'', JStr ''unknown''),
      (''network'', JArr []),
      (''canton_sdk_version'', JNull),
      (''last_verified_activity'', JNull),
      (''launch_date'', JNull),
      (''featured_app'', JNull),
      (''open_source'', JBool False),
      (''repo_url'', JNull),
      (''license_type'', JNull),
      (''security_audit'', JNull),
      (''has_tests'', JNull),
      (''test_count'', JNull),
      (''has_ci'', JNull),
      (''ci_status'', JNull),
      (''has_documentation'', JBool False),
      (''documentation_url'', JNull),
      (''tech_stack'', JArr []),
      (''tx_count_30d'', JNull),
      (''tx_count_90d'', JNull),
      (''unique_parties_30d'', JNull),
      (''cc_burned_30d'', JNull),
      (''featured_markers_30d'', JNull),
      (''onchain_since'', JNull),
      (''created_at'', JStr ''2025-01-01T00:00:00Z''),
      (''updated_at'', JStr ''2025-01-01T00:00:00Z''),
      (''claimed'', JBool False),
      (''claimed_by'', JNull),
      (''claimed_at'', JNull),
      (''data_confidence'', JObj minimal_data_confidence),
      (''last_auto_refresh'', JNull),
      (''notes'', JNull)]"

definition spread :: "(string \<times> json) list \<Rightarrow> (string \<times> json) list \<Rightarrow> (string \<times> json) list" where
  "spread base overrides =
     map (\<lambda>(key, v). (key, case map_of overrides key of None \<Rightarrow> v | Some w \<Rightarrow> w)) base @
     filter (\<lambda>(key, w). key \<notin> set (map fst base)) overrides"

definition makeMinimalProject :: "(string \<times> json) list \<Rightarrow> json" where
  "makeMinimalProject overrides = JObj (spread minimal_project_properties overrides)"

text \<open>
  \<^verbatim>\<open>Date.parse\<close> at the one date string of the minimal project (the first instant of
  2025, in milliseconds since the epoch); \<^verbatim>\<open>NaN\<close> elsewhere, where it is not asked.
\<close>

definition Date_parse_2025 :: date_parser where
  "Date_parse_2025 s = (if s = ''2025-01-01T00:00:00Z'' then Some 1735689600000 else None)"

chapter \<open>Properties\<close>

section \<open>Confidence model\<close>

text \<open>
  C2. For all tiers \<open>from\<close> and \<open>to\<close> (each a tier or null), \<open>isValidTransition from to\<close>
  is true exactly when \<open>from\<close> is null, or \<open>to\<close> is null, or they are equal, or
  \<open>to\<close> is verified, or \<open>from\<close> is verified and \<open>to\<close> is self-reported, or \<open>from\<close> is
  auto-detected and \<open>to\<close> is self-reported. In particular a transition into auto-detected
  from a different non-null tier is rejected, and a transition from null is always accepted.
\<close>

theorem isValidTransition_exact:
  "(\<forall>from to. isValidTransition from to =
      (from = None \<or> to = None \<or> from = to \<or> to = Some Verified \<or>
       (from = Some Verified \<and> to = Some Self_reported) \<or>
       (from = Some Auto_detected \<and> to = Some Self_reported))) \<and>
   (\<forall>from to. to = Some Auto_detected \<longrightarrow> from \<noteq> None \<longrightarrow> from \<noteq> to \<longrightarrow>
      \<not> isValidTransition from to) \<and>
   (\<forall>x. isValidTransition None x)"
proof (intro conjI allI impI)
  fix "from" to :: "ConfidenceTier option"
  show "isValidTransition from to =
      (from = None \<or> to = None \<or> from = to \<or> to = Some Verified \<or>
       (from = Some Verified \<and> to = Some Self_reported) \<or>
       (from = Some Auto_detected \<and> to = Some Self_reported))"
  proof (cases "from")
    case None
    then show ?thesis by (simp add: isValidTransition_def)
  next
    case (Some a)
    show ?thesis
    proof (cases to)
      case None
      then show ?thesis by (simp add: isValidTransition_def)
    next
      case (Some b)
      with \<open>from = Some a\<close> show ?thesis
        by (cases a; cases b) (simp_all add: isValidTransition_def)
    qed
  qed
next
  fix "from" to :: "ConfidenceTier option"
  assume "to = Some Auto_detected" and "from \<noteq> None" and "from \<noteq> to"
  then obtain a where "from = Some a" and "a \<noteq> Auto_detected"
    by (cases "from") auto
  with \<open>to = Some Auto_detected\<close> show "\<not> isValidTransition from to"
    by (cases a) (simp_all add: isValidTransition_def)
next
  fix x :: "ConfidenceTier option"
  show "isValidTransition None x"
    by (simp add: isValidTransition_def)
qed

theorem isValidTransition_exact_witness:
  "Some Verified \<noteq> (None :: ConfidenceTier option) \<and>
   Some Verified \<noteq> Some Auto_detected \<and>
   \<not> isValidTransition (Some Verified) (Some Auto_detected) \<and>
   \<not> isValidTransition (Some Self_reported) (Some Auto_detected) \<and>
   isValidTransition (Some Auto_detected) (Some Verified) \<and>
   isValidTransition None (Some Auto_detected)"
  using isValidTransition_exact by simp

section \<open>Collectors\<close>

subsection \<open>Empty tree\<close>

text \<open>
  C10. On an empty file tree the tests collector returns \<^verbatim>\<open>has_tests: null\<close> and
  \<^verbatim>\<open>test_count: null\<close>, and the CI collector returns \<^verbatim>\<open>has_ci: null\<close> and
  \<^verbatim>\<open>ci_status: null\<close>: presence is unknown, not false. Neither pushes a note, and the CI
  collector sends no request (the result does not depend on \<open>client_get\<close>).
\<close>

theorem empty_tree_unknown:
  "collectTests [] truncated notes = (\<lparr>has_tests = None, test_count = None\<rparr>, notes) \<and>
   collectCi client_get Date_parse now owner repo [] notes =
     (\<lparr>has_ci = None, ci_status = None\<rparr>, notes)"
  by (simp add: collectTests_def collectCi_def)

subsection \<open>Staleness of the last CI run\<close>

lemma ciFiles_nonempty:
  assumes "\<exists>e \<in> set tree. is_ci_file e \<and> startsWith (path e) ''.github/workflows/''"
  shows "tree \<noteq> []"
    and "filter is_ci_file tree \<noteq> []"
    and "list_ex (\<lambda>f. startsWith (path f) ''.github/workflows/'') (filter is_ci_file tree)"
proof -
  from assms obtain e where e: "e \<in> set tree" "is_ci_file e"
    "startsWith (path e) ''.github/workflows/''"
    by blast
  from e(1) show "tree \<noteq> []" by auto
  from e(1,2) have mem: "e \<in> set (filter is_ci_file tree)" by simp
  show "filter is_ci_file tree \<noteq> []"
  proof
    assume "filter is_ci_file tree = []"
    with mem show False by simp
  qed
  from mem e(3)
  show "list_ex (\<lambda>f. startsWith (path f) ''.github/workflows/'') (filter is_ci_file tree)"
    unfolding list_ex_iff by blast
qed

lemma collectCi_primary:
  assumes "\<exists>e \<in> set tree. is_ci_file e \<and> startsWith (path e) ''.github/workflows/''"
  shows "collectCi client_get Date_parse now owner repo tree notes =
     (case client_get (''/repos/'' @ owner @ ''/'' @ repo @ ''/actions/runs'' @
                       ''?per_page=1&status=completed'') of
        Inr response \<Rightarrow>
          (case workflow_runs (data response) of
             [] \<Rightarrow> (\<lparr>has_ci = Some True, ci_status = Some Unknown\<rparr>, notes)
           | run # rest \<Rightarrow>
               (case daysSince Date_parse now run of
                  Some d \<Rightarrow>
                    if d > STALE_CI_DAYS
                    then (\<lparr>has_ci = Some True, ci_status = Some Stale\<rparr>,
                          notes @ [''Last CI run was '' @ string_of_int d @ '' days ago (stale)''])
                    else (\<lparr>has_ci = Some True, ci_status = Some (ciStatus_of (conclusion run))\<rparr>,
                          notes)
                | None \<Rightarrow>
                    (\<lparr>has_ci = Some True, ci_status = Some (ciStatus_of (conclusion run))\<rparr>,
                     notes)))
      | Inl error \<Rightarrow>
          (case error of
             Thrown_GitHubError e \<Rightarrow>
               (\<lparr>has_ci = Some True, ci_status = Some Unknown\<rparr>,
                notes @ [''Could not fetch CI runs: '' @ message e])
           | _ \<Rightarrow> (\<lparr>has_ci = Some True, ci_status = Some Unknown\<rparr>, notes)))"
  using ciFiles_nonempty [OF assms] by (simp add: collectCi_def Let_def)

text \<open>
  C4. The tree holds a CI configuration file under \<^verbatim>\<open>.github/workflows/\<close> (the primary
  provider is detected) and the request for the most recent completed run succeeds.
  With no run the status is \<^verbatim>\<open>unknown\<close>. With a run whose \<^verbatim>\<open>updated_at\<close> parses to the
  time \<open>t\<close>: if \<open>now - t\<close> is 91 days or more (more than 90 whole days) the status is
  \<^verbatim>\<open>stale\<close>, whatever the conclusion; if it is less than 91 days, as 89 days are, the
  status is \<^verbatim>\<open>passing\<close> for the conclusion \<^verbatim>\<open>success\<close>, \<^verbatim>\<open>failing\<close> for \<^verbatim>\<open>failure\<close> and
  \<^verbatim>\<open>unknown\<close> for any other. Times are in milliseconds; a day has 86400000.
\<close>

theorem collectCi_staleness:
  assumes "\<exists>e \<in> set tree. is_ci_file e \<and> startsWith (path e) ''.github/workflows/''"
    and "client_get (''/repos/'' @ owner @ ''/'' @ repo @ ''/actions/runs?per_page=1&status=completed'')
           = Inr response"
  shows "(workflow_runs (data response) = [] \<longrightarrow>
            fst (collectCi client_get Date_parse now owner repo tree notes) =
              \<lparr>has_ci = Some True, ci_status = Some Unknown\<rparr>) \<and>
         (\<forall>run rest t. workflow_runs (data response) = run # rest \<longrightarrow>
            Date_parse (updated_at run) = Some t \<longrightarrow>
              (now - t \<ge> 91 * 86400000 \<longrightarrow>
                 fst (collectCi client_get Date_parse now owner repo tree notes) =
                   \<lparr>has_ci = Some True, ci_status = Some Stale\<rparr>) \<and>
              (now - t < 91 * 86400000 \<longrightarrow>
                 fst (collectCi client_get Date_parse now owner repo tree notes) =
                   \<lparr>has_ci = Some True,
                    ci_status = Some (if conclusion run = ''success'' then Passing
                                      else if conclusion run = ''failure'' then Failing
                                      else Unknown)\<rparr>))"
proof -
  have path_eq: "''/repos/'' @ owner @ ''/'' @ repo @ ''/actions/runs'' @ ''?per_page=1&status=completed''
      = ''/repos/'' @ owner @ ''/'' @ repo @ ''/actions/runs?per_page=1&status=completed''"
    by simp
  note eq = collectCi_primary [OF assms(1), of client_get Date_parse now owner repo "notes",
      unfolded path_eq assms(2)]
  have stale: "(now - t) div 86400000 > 90 \<longleftrightarrow> now - t \<ge> 91 * 86400000" for t :: int
    by linarith
  show ?thesis
  proof (intro conjI allI impI)
    assume "workflow_runs (data response) = []"
    then show "fst (collectCi client_get Date_parse now owner repo tree notes) =
        \<lparr>has_ci = Some True, ci_status = Some Unknown\<rparr>"
      by (simp add: eq)
  next
    fix run rest t
    assume runs: "workflow_runs (data response) = run # rest"
      and t: "Date_parse (updated_at run) = Some t"
      and old: "now - t \<ge> 91 * 86400000"
    from old have "(now - t) div 86400000 > 90" by (simp only: stale)
    with runs t show "fst (collectCi client_get Date_parse now owner repo tree notes) =
        \<lparr>has_ci = Some True, ci_status = Some Stale\<rparr>"
      by (simp add: eq daysSince_def STALE_CI_DAYS_def)
  next
    fix run rest t
    assume runs: "workflow_runs (data response) = run # rest"
      and t: "Date_parse (updated_at run) = Some t"
      and recent: "now - t < 91 * 86400000"
    from recent have "\<not> (now - t) div 86400000 > 90" by (simp only: stale)
    with runs t show "fst (collectCi client_get Date_parse now owner repo tree notes) =
        \<lparr>has_ci = Some True,
         ci_status = Some (if conclusion run = ''success'' then Passing
                           else if conclusion run = ''failure'' then Failing
                           else Unknown)\<rparr>"
      by (simp add: eq daysSince_def STALE_CI_DAYS_def ciStatus_of_def)
  qed
qed

theorem collectCi_staleness_witness:
  "fst (collectCi
     (\<lambda>p. Inr \<lparr>data = \<lparr>workflow_runs = [\<lparr>conclusion = ''success'', updated_at = ''2025-01-01T00:00:00Z''\<rparr>]\<rparr>,
                 GitHubResponse.status = 200, rateLimit = \<lparr>remaining = Some 4999, reset = Some 0\<rparr>\<rparr>)
     (\<lambda>s. Some 1735689600000) (1735689600000 + 91 * 86400000) ''o'' ''r''
     [\<lparr>path = ''.github/workflows/ci.yml'', type = ''blob'', size' = None\<rparr>] [])
   = \<lparr>has_ci = Some True, ci_status = Some Stale\<rparr> \<and>
   fst (collectCi
     (\<lambda>p. Inr \<lparr>data = \<lparr>workflow_runs = [\<lparr>conclusion = ''success'', updated_at = ''2025-01-01T00:00:00Z''\<rparr>]\<rparr>,
                 GitHubResponse.status = 200, rateLimit = \<lparr>remaining = Some 4999, reset = Some 0\<rparr>\<rparr>)
     (\<lambda>s. Some 1735689600000) (1735689600000 + 89 * 86400000) ''o'' ''r''
     [\<lparr>path = ''.github/workflows/ci.yml'', type = ''blob'', size' = None\<rparr>] [])
   = \<lparr>has_ci = Some True, ci_status = Some Passing\<rparr>"
proof -
  let ?e = "\<lparr>path = ''.github/workflows/ci.yml'', type = ''blob'', size' = None\<rparr>"
  let ?run = "\<lparr>conclusion = ''success'', updated_at = ''2025-01-01T00:00:00Z''\<rparr>"
  let ?resp = "\<lparr>data = \<lparr>workflow_runs = [?run]\<rparr>,
                 GitHubResponse.status = 200, rateLimit = \<lparr>remaining = Some 4999, reset = Some 0\<rparr>\<rparr>"
  have ci: "is_ci_file ?e" by code_simp
  have sw: "startsWith (path ?e) ''.github/workflows/''" by code_simp
  have h1: "\<exists>e \<in> set [?e]. is_ci_file e \<and> startsWith (path e) ''.github/workflows/''"
    using ci sw by simp
  have h2: "(\<lambda>p. Inr ?resp) (''/repos/'' @ ''o'' @ ''/'' @ ''r'' @ ''/actions/runs?per_page=1&status=completed'')
      = (Inr ?resp :: thrown + WorkflowRunsResponse GitHubResponse)"
    by simp
  show ?thesis
    using collectCi_staleness [OF h1 h2, of "\<lambda>s. Some 1735689600000" "1735689600000 + 91 * 86400000" "''o''" "''r''" "[]"]
      collectCi_staleness [OF h1 h2, of "\<lambda>s. Some 1735689600000" "1735689600000 + 89 * 86400000" "''o''" "''r''" "[]"]
    by simp
qed

subsection \<open>Last activity\<close>

text \<open>
  C8. The last-activity collector does not throw for an error the client has classified
  (a \<^verbatim>\<open>GitHubError\<close>). When the commit-history call raises one with status 409 it
  returns \<^verbatim>\<open>{ last_verified_activity: null }\<close> and appends the note
  \<^verbatim>\<open>Empty repository\<close>; for any other classified error it returns null and appends a
  note that carries the error's message; when the call succeeds with zero commits it
  returns null and appends the note \<^verbatim>\<open>No commits found\<close>.
\<close>

theorem collectLastActivity_classified_errors:
  "(\<forall>e. client_get (''/repos/'' @ owner @ ''/'' @ repo @ ''/commits?per_page=1'')
          = Inl (Thrown_GitHubError e) \<longrightarrow>
        collectLastActivity client_get owner repo notes =
          Inr (\<lparr>last_verified_activity = None\<rparr>,
               notes @ [if GitHubError.status e = 409 then ''Empty repository''
                        else ''Could not fetch commits: '' @ message e])) \<and>
   (\<forall>response. client_get (''/repos/'' @ owner @ ''/'' @ repo @ ''/commits?per_page=1'')
          = Inr response \<longrightarrow> data response = [] \<longrightarrow>
        collectLastActivity client_get owner repo notes =
          Inr (\<lparr>last_verified_activity = None\<rparr>, notes @ [''No commits found'']))"
  by (simp add: collectLastActivity_def)

theorem collectLastActivity_classified_errors_witness:
  "collectLastActivity
     (\<lambda>p. Inl (Thrown_GitHubError
        \<lparr>status = 409, message = ''Conflict (likely empty repository)'', retryable = False\<rparr>))
     ''JohnLilic'' ''empty'' [''Repository is archived'']
   = Inr (\<lparr>last_verified_activity = None\<rparr>, [''Repository is archived'', ''Empty repository'']) \<and>
   collectLastActivity
     (\<lambda>p. Inl (Thrown_GitHubError \<lparr>status = 403, message = ''Forbidden'', retryable = False\<rparr>))
     ''JohnLilic'' ''empty'' []
   = Inr (\<lparr>last_verified_activity = None\<rparr>, [''Could not fetch commits: Forbidden'']) \<and>
   collectLastActivity
     (\<lambda>p. Inr \<lparr>data = [], GitHubResponse.status = 200,
                 rateLimit = \<lparr>remaining = Some 4999, reset = Some 0\<rparr>\<rparr>)
     ''JohnLilic'' ''empty'' []
   = Inr (\<lparr>last_verified_activity = None\<rparr>, [''No commits found''])"
  using
    collectLastActivity_classified_errors
      [of "\<lambda>p. Inl (Thrown_GitHubError
        \<lparr>status = 409, message = ''Conflict (likely empty repository)'', retryable = False\<rparr>)"
        "''JohnLilic''" "''empty''" "[''Repository is archived'']"]
    collectLastActivity_classified_errors
      [of "\<lambda>p. Inl (Thrown_GitHubError \<lparr>status = 403, message = ''Forbidden'', retryable = False\<rparr>)"
        "''JohnLilic''" "''empty''" "[]"]
    collectLastActivity_classified_errors
      [of "\<lambda>p. Inr \<lparr>data = [], GitHubResponse.status = 200,
                 rateLimit = \<lparr>remaining = Some 4999, reset = Some 0\<rparr>\<rparr>"
        "''JohnLilic''" "''empty''" "[]"]
  by simp

subsection \<open>Tech stack\<close>



























subsection \<open>SDK version\<close>

lemma component_plain:
  assumes "plain_version v"
  shows "i < 3 \<Longrightarrow> component (js_split CHR ''.'' v) i = Some (version_component v i)"
proof -
  assume i: "i < 3"
  let ?parts = "js_split CHR ''.'' v"
  show ?thesis
  proof (cases "i < length ?parts")
    case True
    with i have "?parts ! i \<in> set (take 3 ?parts)"
      by (metis in_set_conv_nth length_take min_less_iff_conj nth_take)
    with assms have "list_all is_digit (?parts ! i)"
      and "int_of_digits (?parts ! i) < 9007199254740992"
      by (auto simp: plain_version_def list_all_iff)
    with True show ?thesis
      by (simp add: component_def Number_def version_component_def)
  next
    case False
    then show ?thesis
      by (simp add: component_def version_component_def)
  qed
qed

lemma compareSemver_plain:
  assumes "plain_version a" and "plain_version b"
  shows "\<exists>d. compareSemver a b = Some d \<and> (d > 0 \<longleftrightarrow> \<not> version_le a b)"
proof -
  have a: "component (js_split CHR ''.'' a) i = Some (version_component a i)" if "i < 3" for i
    using component_plain [OF assms(1) that] .
  have b: "component (js_split CHR ''.'' b) i = Some (version_component b i)" if "i < 3" for i
    using component_plain [OF assms(2) that] .
  show ?thesis
    by (auto simp: compareSemver_def a b version_le_def version_triple_def)
qed

lemma version_le_total: "version_le a b \<or> version_le b a"
  by (auto simp: version_le_def split: prod.splits)

lemma version_le_trans: "version_le a b \<Longrightarrow> version_le b c \<Longrightarrow> version_le a c"
  by (auto simp: version_le_def split: prod.splits)

text \<open>The insertion sort orders a list of plain versions.\<close>

lemma set_insert_by: "set (insert_by cmp x ys) = insert x (set ys)"
  by (induction ys) auto

lemma set_foldl_insert_by: "set (foldl (\<lambda>acc x. insert_by cmp x acc) acc xs) = set acc \<union> set xs"
  by (induction xs arbitrary: acc) (auto simp: set_insert_by)

lemma set_sort_by: "set (sort_by cmp xs) = set xs"
  by (simp add: sort_by_def set_foldl_insert_by)

lemma sorted_insert_by:
  assumes "sorted_wrt version_le ys" and "plain_version x" and "\<forall>y \<in> set ys. plain_version y"
  shows "sorted_wrt version_le (insert_by compareSemver x ys)"
  using assms
proof (induction ys)
  case Nil
  then show ?case by simp
next
  case (Cons y ys)
  from Cons.prems have px: "plain_version x" and py: "plain_version y" by simp_all
  from compareSemver_plain [OF py px] obtain d
    where d: "compareSemver y x = Some d" "d > 0 \<longleftrightarrow> \<not> version_le y x"
    by blast
  show ?case
  proof (cases "d > 0")
    case True
    with d have "\<not> version_le y x" by simp
    with version_le_total have xy: "version_le x y" by blast
    have "version_le x z" if "z \<in> set ys" for z
    proof -
      from Cons.prems(1) that have "version_le y z" by simp
      with xy show ?thesis by (rule version_le_trans)
    qed
    with xy Cons.prems(1) d True show ?thesis by simp
  next
    case False
    with d have yx: "version_le y x" by simp
    from Cons.prems have "sorted_wrt version_le (insert_by compareSemver x ys)"
      by (intro Cons.IH) simp_all
    with yx Cons.prems(1) d False show ?thesis
      by (simp add: set_insert_by)
  qed
qed

lemma sorted_foldl_insert_by:
  assumes "sorted_wrt version_le acc" and "\<forall>y \<in> set acc. plain_version y"
    and "\<forall>x \<in> set xs. plain_version x"
  shows "sorted_wrt version_le (foldl (\<lambda>acc x. insert_by compareSemver x acc) acc xs)"
  using assms
proof (induction xs arbitrary: acc)
  case Nil
  then show ?case by simp
next
  case (Cons x xs)
  from Cons.prems have "sorted_wrt version_le (insert_by compareSemver x acc)"
    by (intro sorted_insert_by) simp_all
  moreover from Cons.prems have "\<forall>y \<in> set (insert_by compareSemver x acc). plain_version y"
    by (simp add: set_insert_by)
  moreover from Cons.prems have "\<forall>x \<in> set xs. plain_version x" by simp
  ultimately show ?case
    by (simp add: Cons.IH)
qed

lemma sorted_sort_by:
  "\<forall>x \<in> set xs. plain_version x \<Longrightarrow> sorted_wrt version_le (sort_by compareSemver xs)"
  by (simp add: sort_by_def sorted_foldl_insert_by)

lemma last_sorted_wrt_greatest:
  assumes "sorted_wrt version_le l" and "w \<in> set l"
  shows "version_le w (last l)"
  using assms
proof (induction l)
  case Nil
  then show ?case by simp
next
  case (Cons x l)
  show ?case
  proof (cases "l = []")
    case True
    with Cons.prems version_le_total [of x x] show ?thesis by auto
  next
    case False
    then have "last l \<in> set l" by simp
    with Cons.prems Cons.IH False show ?thesis by auto
  qed
qed

lemma highest_version:
  assumes "versions \<noteq> []" and "\<forall>v \<in> set versions. plain_version v"
  shows "last (sort_by compareSemver versions) \<in> set versions"
    and "\<forall>w \<in> set versions. version_le w (last (sort_by compareSemver versions))"
proof -
  let ?sorted = "sort_by compareSemver versions"
  from assms(1) have "?sorted \<noteq> []"
    using set_sort_by [of compareSemver versions] by auto
  then have "last ?sorted \<in> set ?sorted" by simp
  then show "last ?sorted \<in> set versions" by (simp add: set_sort_by)
  show "\<forall>w \<in> set versions. version_le w (last ?sorted)"
    using last_sorted_wrt_greatest [OF sorted_sort_by [OF assms(2)]]
    by (simp add: set_sort_by)
qed


lemma parseSdkVersion_empty: "parseSdkVersion [] = None"
  by (simp add: parseSdkVersion_def)

lemma scan_versions_found:
  assumes "\<forall>p \<in> set paths. client_getFileContent owner repo p = Inr (contents p)"
  shows "scan_versions client_getFileContent owner repo paths acc =
     Inr (acc @ found_versions contents paths)"
  using assms
proof (induction paths arbitrary: acc)
  case Nil
  show ?case by (simp add: found_versions_def)
next
  case (Cons p ps)
  from Cons.prems have p: "client_getFileContent owner repo p = Inr (contents p)"
    and ps: "\<forall>q \<in> set ps. client_getFileContent owner repo q = Inr (contents q)"
    by simp_all
  have tail: "found_versions contents (p # ps) =
      (case contents p of
         None \<Rightarrow> []
       | Some c \<Rightarrow> (case parseSdkVersion c of None \<Rightarrow> [] | Some v \<Rightarrow> if v = [] then [] else [v]))
      @ found_versions contents ps"
    by (simp add: found_versions_def)
  show ?case
    by (simp add: p Cons.IH [OF ps] tail parseSdkVersion_empty split: option.splits)
qed

lemma length_unique: "length (unique xs) = card (set xs)"
  by (simp add: unique_def length_remdups_card_conv)

lemma multiple_versions:
  "(length versions > 1 \<and> length (unique versions) > 1) \<longleftrightarrow> 1 < card (set versions)"
proof -
  have "card (set versions) \<le> length versions" by (rule card_length)
  then show ?thesis by (auto simp: length_unique)
qed

text \<open>
  The root \<^verbatim>\<open>daml.yaml\<close> is absent, every \<^verbatim>\<open>daml.yaml\<close> below the root can be
  fetched, and the scan finds at least one version, each with plain decimal components.
  Then the collector reports one of the versions found that is highest in the order of
  the first three components (a missing component is \<open>0\<close>). If more than one distinct
  version was found it pushes one note that lists them, in the order found; otherwise it
  pushes none.
\<close>

lemma collectSdkVersion_highest:
  assumes "client_getFileContent owner repo ''daml.yaml'' = Inr None"
    and "\<forall>p \<in> set (damlYamls tree). client_getFileContent owner repo p = Inr (contents p)"
    and "found_versions contents (damlYamls tree) \<noteq> []"
    and "\<forall>v \<in> set (found_versions contents (damlYamls tree)). plain_version v"
  shows "\<exists>v. collectSdkVersion client_getFileContent owner repo tree notes =
           Inr (\<lparr>canton_sdk_version = Some v\<rparr>,
                if 1 < card (set (found_versions contents (damlYamls tree)))
                then notes @ [''Multiple SDK versions detected: '' @
                              join '', '' (unique (found_versions contents (damlYamls tree)))]
                else notes) \<and>
           v \<in> set (found_versions contents (damlYamls tree)) \<and>
           (\<forall>w \<in> set (found_versions contents (damlYamls tree)). version_le w v)"
proof -
  let ?versions = "found_versions contents (damlYamls tree)"
  let ?v = "last (sort_by compareSemver ?versions)"
  have scan: "scan_versions client_getFileContent owner repo (damlYamls tree) [] = Inr ?versions"
    using scan_versions_found [of "damlYamls tree" client_getFileContent owner repo contents "[]"]
      assms(2) by simp
  from assms(3) have paths: "damlYamls tree \<noteq> []"
    by (auto simp: found_versions_def)
  have "collectSdkVersion client_getFileContent owner repo tree notes =
      Inr (\<lparr>canton_sdk_version = Some ?v\<rparr>,
           if 1 < card (set ?versions)
           then notes @ [''Multiple SDK versions detected: '' @ join '', '' (unique ?versions)]
           else notes)"
    using assms(3) paths multiple_versions [of ?versions]
    by (auto simp: collectSdkVersion_def assms(1) scan Let_def)
  with highest_version [OF assms(3,4)] show ?thesis
    by blast
qed


lemma collectSdkVersion_highest_example:
  "found_versions
     (\<lambda>p. if p = ''a/daml.yaml'' then Some ''sdk-version: 2.7.0''
          else if p = ''b/daml.yaml'' then Some ''sdk-version: 2.9.0''
          else if p = ''c/daml.yaml'' then Some ''sdk-version: 2.8.1''
          else None)
     (damlYamls
        [\<lparr>path = ''a/daml.yaml'', type = ''blob'', size' = None\<rparr>,
         \<lparr>path = ''b/daml.yaml'', type = ''blob'', size' = None\<rparr>,
         \<lparr>path = ''c/daml.yaml'', type = ''blob'', size' = None\<rparr>])
   = [''2.7.0'', ''2.9.0'', ''2.8.1''] \<and>
   collectSdkVersion
     (\<lambda>owner repo p. Inr
        (if p = ''a/daml.yaml'' then Some ''sdk-version: 2.7.0''
         else if p = ''b/daml.yaml'' then Some ''sdk-version: 2.9.0''
         else if p = ''c/daml.yaml'' then Some ''sdk-version: 2.8.1''
         else None))
     ''o'' ''r''
     [\<lparr>path = ''a/daml.yaml'', type = ''blob'', size' = None\<rparr>,
      \<lparr>path = ''b/daml.yaml'', type = ''blob'', size' = None\<rparr>,
      \<lparr>path = ''c/daml.yaml'', type = ''blob'', size' = None\<rparr>]
     []
   = Inr (\<lparr>canton_sdk_version = Some ''2.9.0''\<rparr>,
          [''Multiple SDK versions detected: 2.7.0, 2.9.0, 2.8.1''])"
proof -
  let ?contents = "\<lambda>p. if p = ''a/daml.yaml'' then Some ''sdk-version: 2.7.0''
          else if p = ''b/daml.yaml'' then Some ''sdk-version: 2.9.0''
          else if p = ''c/daml.yaml'' then Some ''sdk-version: 2.8.1''
          else None"
  let ?get = "\<lambda>(owner :: string) (repo :: string) p. (Inr (?contents p) :: thrown + string option)"
  let ?tree = "[\<lparr>path = ''a/daml.yaml'', type = ''blob'', size' = None\<rparr>,
      \<lparr>path = ''b/daml.yaml'', type = ''blob'', size' = None\<rparr>,
      \<lparr>path = ''c/daml.yaml'', type = ''blob'', size' = None\<rparr>]"
  have paths: "damlYamls ?tree = [''a/daml.yaml'', ''b/daml.yaml'', ''c/daml.yaml'']"
    by code_simp
  have p1: "parseSdkVersion ''sdk-version: 2.7.0'' = Some ''2.7.0''" by code_simp
  have p2: "parseSdkVersion ''sdk-version: 2.9.0'' = Some ''2.9.0''" by code_simp
  have p3: "parseSdkVersion ''sdk-version: 2.8.1'' = Some ''2.8.1''" by code_simp
  have versions: "found_versions ?contents (damlYamls ?tree) = [''2.7.0'', ''2.9.0'', ''2.8.1'']"
    unfolding paths by (simp add: found_versions_def p1 p2 p3)
  have h1: "?get ''o'' ''r'' ''daml.yaml'' = Inr None"
    by simp
  have h2: "\<forall>p \<in> set (damlYamls ?tree). ?get ''o'' ''r'' p = Inr (?contents p)"
    by simp
  have h3: "found_versions ?contents (damlYamls ?tree) \<noteq> []"
    unfolding versions by simp
  have plain: "plain_version ''2.7.0''" "plain_version ''2.9.0''" "plain_version ''2.8.1''"
    by code_simp+
  have h4: "\<forall>v \<in> set (found_versions ?contents (damlYamls ?tree)). plain_version v"
    unfolding versions using plain by simp
  have lower: "\<not> version_le ''2.9.0'' ''2.7.0''" "\<not> version_le ''2.9.0'' ''2.8.1''"
    by code_simp+
  have unique: "unique [''2.7.0'', ''2.9.0'', ''2.8.1''] = [''2.7.0'', ''2.9.0'', ''2.8.1'']"
    by (simp add: unique_def)
  from collectSdkVersion_highest [of ?get "''o''" "''r''" ?tree ?contents "[]", OF h1 h2 h3 h4]
  obtain v where v: "collectSdkVersion ?get ''o'' ''r'' ?tree [] =
        Inr (\<lparr>canton_sdk_version = Some v\<rparr>,
             if 1 < card (set (found_versions ?contents (damlYamls ?tree)))
             then [] @ [''Multiple SDK versions detected: '' @
                        join '', '' (unique (found_versions ?contents (damlYamls ?tree)))]
             else [])"
      and mem: "v \<in> set (found_versions ?contents (damlYamls ?tree))"
      and top: "\<forall>w \<in> set (found_versions ?contents (damlYamls ?tree)). version_le w v"
    by blast
  from top have "version_le ''2.9.0'' v"
    unfolding versions by simp
  with mem lower have "v = ''2.9.0''"
    unfolding versions by auto
  with v show ?thesis
    unfolding versions by (simp add: unique)
qed


text \<open>
  C3. With a version whose third component carries a pre-release suffix the collector
  does not report the highest version. The root \<^verbatim>\<open>daml.yaml\<close> is absent and the tree
  has two \<^verbatim>\<open>daml.yaml\<close> files, with the versions \<^verbatim>\<open>2.9.1\<close> and \<^verbatim>\<open>2.9.0-rc1\<close> in this
  order. \<^verbatim>\<open>Number("0-rc1")\<close> is \<^verbatim>\<open>NaN\<close>, so \<^verbatim>\<open>compareSemver\<close> returns \<^verbatim>\<open>NaN\<close>, the sort
  leaves the two versions in the order found, and the collector reports the last one,
  \<^verbatim>\<open>2.9.0-rc1\<close>, although \<^verbatim>\<open>2.9.1\<close> is above it in the order of the first three
  components.
\<close>

theorem collectSdkVersion_prerelease_not_highest:
  "compareSemver ''2.9.1'' ''2.9.0-rc1'' = None \<and>
   collectSdkVersion
     (\<lambda>owner repo p. Inr
        (if p = ''a/daml.yaml'' then Some ''sdk-version: 2.9.1''
         else if p = ''b/daml.yaml'' then Some ''sdk-version: 2.9.0-rc1''
         else None))
     ''o'' ''r''
     [\<lparr>path = ''a/daml.yaml'', type = ''blob'', size' = None\<rparr>,
      \<lparr>path = ''b/daml.yaml'', type = ''blob'', size' = None\<rparr>]
     []
   = Inr (\<lparr>canton_sdk_version = Some ''2.9.0-rc1''\<rparr>,
          [''Multiple SDK versions detected: 2.9.1, 2.9.0-rc1'']) \<and>
   version_triple ''2.9.1'' = (2, 9, 1) \<and>
   version_triple ''2.9.0-rc1'' = (2, 9, 0) \<and>
   \<not> version_le ''2.9.1'' ''2.9.0-rc1''"
proof -
  let ?tree = "[\<lparr>path = ''a/daml.yaml'', type = ''blob'', size' = None\<rparr>,
      \<lparr>path = ''b/daml.yaml'', type = ''blob'', size' = None\<rparr>]"
  have paths: "damlYamls ?tree = [''a/daml.yaml'', ''b/daml.yaml'']"
    by code_simp
  have p1: "parseSdkVersion ''sdk-version: 2.9.1'' = Some ''2.9.1''" by code_simp
  have p2: "parseSdkVersion ''sdk-version: 2.9.0-rc1'' = Some ''2.9.0-rc1''" by code_simp
  have cmp: "compareSemver ''2.9.1'' ''2.9.0-rc1'' = None" by code_simp
  have sorted: "sort_by compareSemver [''2.9.1'', ''2.9.0-rc1''] = [''2.9.1'', ''2.9.0-rc1'']"
    by (simp add: sort_by_def cmp)
  have unique: "unique [''2.9.1'', ''2.9.0-rc1''] = [''2.9.1'', ''2.9.0-rc1'']"
    by (simp add: unique_def)
  have t1: "version_triple ''2.9.1'' = (2, 9, 1)" by code_simp
  have t2: "version_triple ''2.9.0-rc1'' = (2, 9, 0)" by code_simp
  have le: "\<not> version_le ''2.9.1'' ''2.9.0-rc1''"
    by (simp add: version_le_def t1 t2)
  have "collectSdkVersion
     (\<lambda>owner repo p. Inr
        (if p = ''a/daml.yaml'' then Some ''sdk-version: 2.9.1''
         else if p = ''b/daml.yaml'' then Some ''sdk-version: 2.9.0-rc1''
         else None))
     ''o'' ''r'' ?tree []
   = Inr (\<lparr>canton_sdk_version = Some ''2.9.0-rc1''\<rparr>,
          [''Multiple SDK versions detected: 2.9.1, 2.9.0-rc1''])"
    by (simp add: collectSdkVersion_def paths p1 p2 sorted unique)
  with cmp t1 t2 le show ?thesis by simp
qed

section \<open>The client\<close>

declare get_loop.simps [simp del]

lemma catch_block_Throws:
  "catch_block attempt error = Throws e \<Longrightarrow> \<not> retryable e \<or> attempt = MAX_RETRIES"
  by (auto simp: catch_block_def Let_def split: thrown.splits if_splits)

lemma try_block_Throws:
  "try_block attempt response rl = Throws e \<Longrightarrow> \<not> retryable e \<or> attempt = MAX_RETRIES"
  by (auto simp: try_block_def catch_block_def Let_def
      split: thrown.splits if_splits sum.splits option.splits)

lemma try_block_404:
  "response_status response = 404 \<Longrightarrow>
   try_block attempt response rl =
     Throws \<lparr>status = 404, message = ''Not found'', retryable = False\<rparr>"
  by (simp add: try_block_def catch_block_def)

lemma try_block_5xx:
  "response_status response \<ge> 500 \<Longrightarrow>
   try_block attempt response rl =
     Continues \<lparr>status = response_status response,
                message = ''Server error: '' @ string_of_int (response_status response),
                retryable = True\<rparr>"
  by (simp add: try_block_def)


lemma checkRateLimit_pacing: "filter (\<lambda>e. \<not> is_pacing e) (checkRateLimit t rl) = []"
  by (cases "remaining rl"; cases "reset rl")
     (simp_all add: checkRateLimit_def Let_def cong: if_cong)

lemma attempts_events_empty: "attempts_events url a a = []"
  by (simp add: attempts_events_def)

lemma attempts_events_step:
  "a < n \<Longrightarrow> attempts_events url a n = attempt_events url a @ attempts_events url (Suc a) n"
  by (simp add: attempts_events_def upt_conv_Cons)

lemma attempt_events_not_pacing:
  "filter (\<lambda>e. \<not> is_pacing e) (attempt_events url a) = attempt_events url a"
  by (simp add: attempt_events_def)

text \<open>
  What the loop does from attempt \<open>a\<close> on. \<open>n\<close> is the number of the attempt it would make
  next when it stops, so that attempts \<open>a\<close> to \<open>n - 1\<close> are the ones made.
\<close>

lemma get_loop_attempts:
  assumes "4 - a = d" and "a \<le> 4"
    and "get_loop fetch Date_now url a lastError rl events = (result, rl', events')"
  shows "\<exists>n. (a \<le> n) \<and>
     (n \<le> 4) \<and>
     (a < 4 \<longrightarrow> a < n) \<and>
     (filter (\<lambda>e. \<not> is_pacing e) events' =
       filter (\<lambda>e. \<not> is_pacing e) events @ attempts_events url (a) (n)) \<and>
     (n = a \<longrightarrow> lastError \<noteq> None \<longrightarrow> result = Inl (the lastError)) \<and>
     (\<forall>k response. a \<le> k \<longrightarrow> k < n \<longrightarrow> fetch k = Inr response \<longrightarrow>
        response_status response = 404 \<longrightarrow>
          n = k + 1 \<and>
          result = Inl \<lparr>status = 404, message = ''Not found'', retryable = False\<rparr>) \<and>
     (\<forall>k response. a \<le> k \<longrightarrow> k < n \<longrightarrow> fetch k = Inr response \<longrightarrow>
        response_status response \<ge> 500 \<longrightarrow>
          (k < 3 \<longrightarrow> k + 1 < n) \<and>
          (k = 3 \<longrightarrow>
             result = Inl \<lparr>status = response_status response,
                           message = ''Server error: '' @ string_of_int (response_status response),
                           retryable = True\<rparr>)) \<and>
     (\<forall>e. result = Inl e \<longrightarrow> retryable e \<longrightarrow> n = 4)"
  using assms
proof (induction d arbitrary: a lastError rl events)
  case 0
  then have a: "a = 4" by simp
  from "0.prems"(3) have res: "result = Inl (case lastError of Some e \<Rightarrow> e
      | None \<Rightarrow> \<lparr>status = 0, message = ''Unknown error after retries'', retryable = False\<rparr>)"
    and ev: "events' = events"
    unfolding a by (simp_all add: get_loop.simps [of _ _ _ 4] MAX_RETRIES_def)
  have c1: "a \<le> (4::nat)"
    by (simp add: a)
  have c2: "(4::nat) \<le> 4"
    by simp
  have c3: "a < 4 \<longrightarrow> a < (4::nat)"
    by (simp add: a)
  have c4: "filter (\<lambda>e. \<not> is_pacing e) events' =
       filter (\<lambda>e. \<not> is_pacing e) events @ attempts_events url (a) ((4::nat))"
    by (simp add: ev a attempts_events_empty)
  have c5: "(4::nat) = a \<longrightarrow> lastError \<noteq> None \<longrightarrow> result = Inl (the lastError)"
    using res by auto
  have c6: "\<forall>k response. a \<le> k \<longrightarrow> k < (4::nat) \<longrightarrow> fetch k = Inr response \<longrightarrow>
        response_status response = 404 \<longrightarrow>
          (4::nat) = k + 1 \<and>
          result = Inl \<lparr>status = 404, message = ''Not found'', retryable = False\<rparr>"
    by (simp add: a)
  have c7: "\<forall>k response. a \<le> k \<longrightarrow> k < (4::nat) \<longrightarrow> fetch k = Inr response \<longrightarrow>
        response_status response \<ge> 500 \<longrightarrow>
          (k < 3 \<longrightarrow> k + 1 < (4::nat)) \<and>
          (k = 3 \<longrightarrow>
             result = Inl \<lparr>status = response_status response,
                           message = ''Server error: '' @ string_of_int (response_status response),
                           retryable = True\<rparr>)"
    by (simp add: a)
  have c8: "\<forall>e. result = Inl e \<longrightarrow> retryable e \<longrightarrow> (4::nat) = 4"
    by simp
  show ?case
    by (rule exI [of _ 4]) (intro conjI c1 c2 c3 c4 c5 c6 c7 c8)
next
  case (Suc d)
  then have a: "a < 4" by simp
  define events2 where "events2 =
     (events @ (if a > 0 then [Sleep_backoff (INITIAL_BACKOFF_MS * 2 ^ (a - 1))] else [])) @
     checkRateLimit (Date_now a) rl @ [Fetch url]"
  define rl2 where "rl2 =
     (case fetch a of Inl error \<Rightarrow> rl | Inr response \<Rightarrow> updateRateLimit response rl)"
  define pass where "pass =
     (case fetch a of
        Inl error \<Rightarrow> catch_block a error
      | Inr response \<Rightarrow> try_block a response rl2)"
  have step: "get_loop fetch Date_now url a lastError rl events =
     (case pass of
        Returns r \<Rightarrow> (Inr r, rl2, events2)
      | Throws e \<Rightarrow> (Inl e, rl2, events2)
      | Continues e \<Rightarrow> get_loop fetch Date_now url (Suc a) (Some e) rl2 events2)"
    unfolding events2_def rl2_def pass_def using a
    by (subst get_loop.simps) (simp add: MAX_RETRIES_def Let_def)
  have events2: "filter (\<lambda>e. \<not> is_pacing e) events2 =
     filter (\<lambda>e. \<not> is_pacing e) events @ attempt_events url a"
    by (simp add: events2_def checkRateLimit_pacing attempt_events_def)
  have one: "attempts_events url a (Suc a) = attempt_events url a"
    by (simp add: attempts_events_def)
  have pass_404: "pass = Throws \<lparr>status = 404, message = ''Not found'', retryable = False\<rparr>"
    if "fetch a = Inr response" "response_status response = 404" for response
    using that by (simp add: pass_def try_block_404)
  have pass_5xx: "pass = Continues \<lparr>status = response_status response,
        message = ''Server error: '' @ string_of_int (response_status response),
        retryable = True\<rparr>"
    if "fetch a = Inr response" "response_status response \<ge> 500" for response
    using that by (simp add: pass_def try_block_5xx)
  have pass_Throws: "\<not> retryable e \<or> a = 3" if "pass = Throws e" for e
  proof (cases "fetch a")
    case (Inl error)
    with that catch_block_Throws [of a error e] show ?thesis
      by (simp add: pass_def MAX_RETRIES_def)
  next
    case (Inr response)
    with that try_block_Throws [of a response rl2 e] show ?thesis
      by (simp add: pass_def MAX_RETRIES_def)
  qed
  show ?case
  proof (cases pass)
    case (Returns r)
    with step Suc.prems(3) have res: "result = Inr r" and ev: "events' = events2" by simp_all
    have c1: "a \<le> Suc a" by simp
    have c2: "Suc a \<le> 4" using a by simp
    have c3: "a < 4 \<longrightarrow> a < Suc a" by simp
    have c4: "filter (\<lambda>e. \<not> is_pacing e) events' =
       filter (\<lambda>e. \<not> is_pacing e) events @ attempts_events url (a) (Suc a)"
      by (simp add: ev events2 one)
    have c5: "Suc a = a \<longrightarrow> lastError \<noteq> None \<longrightarrow> result = Inl (the lastError)" by simp
    have c6: "\<forall>k response. a \<le> k \<longrightarrow> k < Suc a \<longrightarrow> fetch k = Inr response \<longrightarrow>
        response_status response = 404 \<longrightarrow>
          Suc a = k + 1 \<and>
          result = Inl \<lparr>status = 404, message = ''Not found'', retryable = False\<rparr>"
    proof (intro allI impI)
      fix k response
      assume k: "a \<le> k" "k < Suc a" "fetch k = Inr response" "response_status response = 404"
      then have ka: "k = a" by simp
      from pass_404 [of response] k ka have "pass = Throws \<lparr>status = 404, message = ''Not found'', retryable = False\<rparr>"
        by simp
      with Returns res show "Suc a = k + 1 \<and>
          result = Inl \<lparr>status = 404, message = ''Not found'', retryable = False\<rparr>"
        by (simp add: ka)
    qed
    have c7: "\<forall>k response. a \<le> k \<longrightarrow> k < Suc a \<longrightarrow> fetch k = Inr response \<longrightarrow>
        response_status response \<ge> 500 \<longrightarrow>
          (k < 3 \<longrightarrow> k + 1 < Suc a) \<and>
          (k = 3 \<longrightarrow>
             result = Inl \<lparr>status = response_status response,
                           message = ''Server error: '' @ string_of_int (response_status response),
                           retryable = True\<rparr>)"
    proof (intro allI impI)
      fix k response
      assume k: "a \<le> k" "k < Suc a" "fetch k = Inr response" "response_status response \<ge> 500"
      then have ka: "k = a" by simp
      from pass_5xx [of response] k ka Returns have False
        by simp
      then show "(k < 3 \<longrightarrow> k + 1 < Suc a) \<and>
          (k = 3 \<longrightarrow>
             result = Inl \<lparr>status = response_status response,
                           message = ''Server error: '' @ string_of_int (response_status response),
                           retryable = True\<rparr>)" ..
    qed
    have c8: "\<forall>e. result = Inl e \<longrightarrow> retryable e \<longrightarrow> Suc a = 4" by (simp add: res)
    show ?thesis
      by (rule exI [of _ "Suc a"]) (intro conjI c1 c2 c3 c4 c5 c6 c7 c8)
  next
    case (Throws e)
    with step Suc.prems(3) have res: "result = Inl e" and ev: "events' = events2" by simp_all
    have c1: "a \<le> Suc a" by simp
    have c2: "Suc a \<le> 4" using a by simp
    have c3: "a < 4 \<longrightarrow> a < Suc a" by simp
    have c4: "filter (\<lambda>e. \<not> is_pacing e) events' =
       filter (\<lambda>e. \<not> is_pacing e) events @ attempts_events url (a) (Suc a)"
      by (simp add: ev events2 one)
    have c5: "Suc a = a \<longrightarrow> lastError \<noteq> None \<longrightarrow> result = Inl (the lastError)" by simp
    have c6: "\<forall>k response. a \<le> k \<longrightarrow> k < Suc a \<longrightarrow> fetch k = Inr response \<longrightarrow>
        response_status response = 404 \<longrightarrow>
          Suc a = k + 1 \<and>
          result = Inl \<lparr>status = 404, message = ''Not found'', retryable = False\<rparr>"
    proof (intro allI impI)
      fix k response
      assume k: "a \<le> k" "k < Suc a" "fetch k = Inr response" "response_status response = 404"
      then have ka: "k = a" by simp
      from pass_404 [of response] k ka have "pass = Throws \<lparr>status = 404, message = ''Not found'', retryable = False\<rparr>"
        by simp
      with Throws res show "Suc a = k + 1 \<and>
          result = Inl \<lparr>status = 404, message = ''Not found'', retryable = False\<rparr>"
        by (simp add: ka)
    qed
    have c7: "\<forall>k response. a \<le> k \<longrightarrow> k < Suc a \<longrightarrow> fetch k = Inr response \<longrightarrow>
        response_status response \<ge> 500 \<longrightarrow>
          (k < 3 \<longrightarrow> k + 1 < Suc a) \<and>
          (k = 3 \<longrightarrow>
             result = Inl \<lparr>status = response_status response,
                           message = ''Server error: '' @ string_of_int (response_status response),
                           retryable = True\<rparr>)"
    proof (intro allI impI)
      fix k response
      assume k: "a \<le> k" "k < Suc a" "fetch k = Inr response" "response_status response \<ge> 500"
      then have ka: "k = a" by simp
      from pass_5xx [of response] k ka Throws have False
        by simp
      then show "(k < 3 \<longrightarrow> k + 1 < Suc a) \<and>
          (k = 3 \<longrightarrow>
             result = Inl \<lparr>status = response_status response,
                           message = ''Server error: '' @ string_of_int (response_status response),
                           retryable = True\<rparr>)" ..
    qed
    have c8: "\<forall>e. result = Inl e \<longrightarrow> retryable e \<longrightarrow> Suc a = 4"
    proof (intro allI impI)
      fix e'
      assume "result = Inl e'" and "retryable e'"
      with res have "retryable e" by simp
      with pass_Throws [OF Throws] have "a = 3" by simp
      then show "Suc a = 4" by simp
    qed
    show ?thesis
      by (rule exI [of _ "Suc a"]) (intro conjI c1 c2 c3 c4 c5 c6 c7 c8)
  next
    case (Continues e)
    with step Suc.prems(3)
    have rec: "get_loop fetch Date_now url (Suc a) (Some e) rl2 events2 = (result, rl', events')"
      by simp
    from Suc.prems(1) a have d: "4 - Suc a = d" and a': "Suc a \<le> 4" by simp_all
    from Suc.IH [OF d a' rec] obtain n where
      n1: "Suc a \<le> n"
      and n2: "n \<le> 4"
      and n3: "Suc a < 4 \<longrightarrow> Suc a < n"
      and n4: "filter (\<lambda>e. \<not> is_pacing e) events' =
       filter (\<lambda>e. \<not> is_pacing e) events2 @ attempts_events url (Suc a) (n)"
      and n5: "n = Suc a \<longrightarrow> (Some e) \<noteq> None \<longrightarrow> result = Inl (the (Some e))"
      and n6: "\<forall>k response. Suc a \<le> k \<longrightarrow> k < n \<longrightarrow> fetch k = Inr response \<longrightarrow>
        response_status response = 404 \<longrightarrow>
          n = k + 1 \<and>
          result = Inl \<lparr>status = 404, message = ''Not found'', retryable = False\<rparr>"
      and n7: "\<forall>k response. Suc a \<le> k \<longrightarrow> k < n \<longrightarrow> fetch k = Inr response \<longrightarrow>
        response_status response \<ge> 500 \<longrightarrow>
          (k < 3 \<longrightarrow> k + 1 < n) \<and>
          (k = 3 \<longrightarrow>
             result = Inl \<lparr>status = response_status response,
                           message = ''Server error: '' @ string_of_int (response_status response),
                           retryable = True\<rparr>)"
      and n8: "\<forall>e. result = Inl e \<longrightarrow> retryable e \<longrightarrow> n = 4"
      by (elim exE conjE) (rule that)
    from n1 have an: "a < n" by simp
    have c1: "a \<le> n" using an by simp
    have c3: "a < 4 \<longrightarrow> a < n" using an by simp
    have c4: "filter (\<lambda>e. \<not> is_pacing e) events' =
       filter (\<lambda>e. \<not> is_pacing e) events @ attempts_events url (a) (n)"
      using n4 by (simp add: events2 attempts_events_step [OF an])
    have c5: "n = a \<longrightarrow> lastError \<noteq> None \<longrightarrow> result = Inl (the lastError)" using an by simp
    have c6: "\<forall>k response. a \<le> k \<longrightarrow> k < n \<longrightarrow> fetch k = Inr response \<longrightarrow>
        response_status response = 404 \<longrightarrow>
          n = k + 1 \<and>
          result = Inl \<lparr>status = 404, message = ''Not found'', retryable = False\<rparr>"
    proof (intro allI impI)
      fix k response
      assume k: "a \<le> k" "k < n" "fetch k = Inr response" "response_status response = 404"
      show "n = k + 1 \<and>
          result = Inl \<lparr>status = 404, message = ''Not found'', retryable = False\<rparr>"
      proof (cases "k = a")
        case True
        from pass_404 [of response] k True Continues have False by simp
        then show ?thesis ..
      next
        case False
        with k have "Suc a \<le> k" by simp
        with n6 k show ?thesis by blast
      qed
    qed
    have c7: "\<forall>k response. a \<le> k \<longrightarrow> k < n \<longrightarrow> fetch k = Inr response \<longrightarrow>
        response_status response \<ge> 500 \<longrightarrow>
          (k < 3 \<longrightarrow> k + 1 < n) \<and>
          (k = 3 \<longrightarrow>
             result = Inl \<lparr>status = response_status response,
                           message = ''Server error: '' @ string_of_int (response_status response),
                           retryable = True\<rparr>)"
    proof (intro allI impI)
      fix k response
      assume k: "a \<le> k" "k < n" "fetch k = Inr response" "response_status response \<ge> 500"
      show "(k < 3 \<longrightarrow> k + 1 < n) \<and>
          (k = 3 \<longrightarrow>
             result = Inl \<lparr>status = response_status response,
                           message = ''Server error: '' @ string_of_int (response_status response),
                           retryable = True\<rparr>)"
      proof (cases "k = a")
        case True
        from pass_5xx [of response] k True Continues
        have e: "e = \<lparr>status = response_status response,
                           message = ''Server error: '' @ string_of_int (response_status response),
                           retryable = True\<rparr>"
          by simp
        have "k < 3 \<longrightarrow> k + 1 < n"
          using True n1 n3 by auto
        moreover have "k = 3 \<longrightarrow> result = Inl e"
        proof
          assume "k = 3"
          with True n1 n2 have "n = Suc a" by simp
          with n5 show "result = Inl e" by simp
        qed
        ultimately show ?thesis
          unfolding e by blast
      next
        case False
        with k have "Suc a \<le> k" by simp
        with n7 k show ?thesis by blast
      qed
    qed
    show ?thesis
      by (rule exI [of _ n]) (intro conjI c1 n2 c3 c4 c5 c6 c7 n8)
  qed
qed


lemma fetch_not_pacing: "filter is_fetch (filter (\<lambda>e. \<not> is_pacing e) xs) = filter is_fetch xs"
proof (induction xs)
  case Nil
  show ?case by simp
next
  case (Cons x xs)
  then show ?case by (cases x) simp_all
qed

lemma length_fetch_attempts_events_aux:
  "length (filter is_fetch (concat (map (attempt_events url) xs))) = length xs"
  by (induction xs) (simp_all add: attempt_events_def)

lemma length_fetch_attempts_events:
  "length (filter is_fetch (attempts_events url a n)) = n - a"
  by (simp add: attempts_events_def length_fetch_attempts_events_aux)

lemma attempts_events_from_0:
  assumes "0 < n" and "n \<le> 4"
  shows "attempts_events url 0 n =
     take (2 * n - 1)
       [Fetch url, Sleep_backoff 1000, Fetch url, Sleep_backoff 2000, Fetch url,
        Sleep_backoff 4000, Fetch url]"
proof -
  from assms have "n = 1 \<or> n = 2 \<or> n = 3 \<or> n = 4" by arith
  moreover have "[0..<2] = [0, 1]" "[0..<3] = [0, 1, 2]" "[0..<4] = [0, 1, 2, 3]"
    by (simp_all add: upt_rec)
  ultimately show ?thesis
    by (auto simp: attempts_events_def attempt_events_def INITIAL_BACKOFF_MS_def)
qed

text \<open>
  C5. A call of \<^verbatim>\<open>get\<close>, for any upstream behaviour \<open>fetch\<close>, any clock and any state
  of the client. \<open>n\<close> is the number of requests the call sends.
  \<^item> It sends at least one request and at most four.
  \<^item> Pacing sleeps apart, its events are the requests with a backoff sleep of 1000 ms
    before the second, 2000 ms before the third and 4000 ms before the fourth.
  \<^item> If a request is answered with status 404, it is the last one and the call throws
    the error \<^verbatim>\<open>Not found\<close>, which is not retryable.
  \<^item> If a request is answered with a status of 500 or more, then unless it is the
    fourth another request follows; if it is the fourth the call throws the retryable
    server error.
  \<^item> A retryable error is thrown only after four requests.
\<close>

theorem get_retry_policy:
  assumes "get client fetch Date_now request = (result, client', events)"
  shows "\<exists>n. n = length (filter is_fetch events) \<and> 1 \<le> n \<and> n \<le> 4 \<and>
     filter (\<lambda>e. \<not> is_pacing e) events =
       take (2 * n - 1)
         [Fetch (baseUrl client @ request), Sleep_backoff 1000,
          Fetch (baseUrl client @ request), Sleep_backoff 2000,
          Fetch (baseUrl client @ request), Sleep_backoff 4000,
          Fetch (baseUrl client @ request)] \<and>
     (\<forall>k response. k < n \<longrightarrow> fetch k = Inr response \<longrightarrow> response_status response = 404 \<longrightarrow>
        n = k + 1 \<and>
        result = Inl \<lparr>status = 404, message = ''Not found'', retryable = False\<rparr>) \<and>
     (\<forall>k response. k < n \<longrightarrow> fetch k = Inr response \<longrightarrow> response_status response \<ge> 500 \<longrightarrow>
        (k < 3 \<longrightarrow> k + 1 < n) \<and>
        (k = 3 \<longrightarrow>
           result = Inl \<lparr>status = response_status response,
                         message = ''Server error: '' @ string_of_int (response_status response),
                         retryable = True\<rparr>)) \<and>
     (\<forall>e. result = Inl e \<longrightarrow> retryable e \<longrightarrow> n = 4)"
proof -
  let ?url = "baseUrl client @ request"
  from assms obtain rl' where
    loop: "get_loop fetch Date_now ?url 0 None (lastRateLimit client) [] = (result, rl', events)"
    by (auto simp: get_def split: prod.splits)
  have start: "4 - (0::nat) = 4" "(0::nat) \<le> 4" by simp_all
  from get_loop_attempts [OF start loop] obtain n where
    n1: "0 \<le> n" and n2: "n \<le> 4" and n3: "(0::nat) < 4 \<longrightarrow> 0 < n"
    and n4: "filter (\<lambda>e. \<not> is_pacing e) events =
       filter (\<lambda>e. \<not> is_pacing e) [] @ attempts_events ?url 0 n"
    and n6: "\<forall>k response. 0 \<le> k \<longrightarrow> k < n \<longrightarrow> fetch k = Inr response \<longrightarrow>
        response_status response = 404 \<longrightarrow>
          n = k + 1 \<and>
          result = Inl \<lparr>status = 404, message = ''Not found'', retryable = False\<rparr>"
    and n7: "\<forall>k response. 0 \<le> k \<longrightarrow> k < n \<longrightarrow> fetch k = Inr response \<longrightarrow>
        response_status response \<ge> 500 \<longrightarrow>
          (k < 3 \<longrightarrow> k + 1 < n) \<and>
          (k = 3 \<longrightarrow>
             result = Inl \<lparr>status = response_status response,
                           message = ''Server error: '' @ string_of_int (response_status response),
                           retryable = True\<rparr>)"
    and n8: "\<forall>e. result = Inl e \<longrightarrow> retryable e \<longrightarrow> n = 4"
    by (elim exE conjE) (rule that)
  from n3 have pos: "0 < n" by simp
  from n4 have trace: "filter (\<lambda>e. \<not> is_pacing e) events = attempts_events ?url 0 n"
    by simp
  have "length (filter is_fetch events) =
      length (filter is_fetch (filter (\<lambda>e. \<not> is_pacing e) events))"
    by (simp only: fetch_not_pacing)
  also have "\<dots> = n"
    by (simp only: trace length_fetch_attempts_events)
  finally have c0: "n = length (filter is_fetch events)" by simp
  have c1: "1 \<le> n" using pos by simp
  have c4: "filter (\<lambda>e. \<not> is_pacing e) events =
       take (2 * n - 1)
         [Fetch ?url, Sleep_backoff 1000, Fetch ?url, Sleep_backoff 2000, Fetch ?url,
          Sleep_backoff 4000, Fetch ?url]"
    unfolding trace by (rule attempts_events_from_0 [OF pos n2])
  have c6: "\<forall>k response. k < n \<longrightarrow> fetch k = Inr response \<longrightarrow> response_status response = 404 \<longrightarrow>
        n = k + 1 \<and>
        result = Inl \<lparr>status = 404, message = ''Not found'', retryable = False\<rparr>"
    using n6 by blast
  have c7: "\<forall>k response. k < n \<longrightarrow> fetch k = Inr response \<longrightarrow> response_status response \<ge> 500 \<longrightarrow>
        (k < 3 \<longrightarrow> k + 1 < n) \<and>
        (k = 3 \<longrightarrow>
           result = Inl \<lparr>status = response_status response,
                         message = ''Server error: '' @ string_of_int (response_status response),
                         retryable = True\<rparr>)"
    using n7 by blast
  show ?thesis
    by (rule exI [of _ n]) (intro conjI c0 c1 n2 c4 c6 c7 n8)
qed

theorem get_retry_policy_witness:
  "get (new_GitHubClient ''token'' None)
     (\<lambda>i. Inr \<lparr>response_status = 503, x_ratelimit_remaining = Some ''4999'',
                 x_ratelimit_reset = Some ''1700000000'', json = Inr ()\<rparr>)
     (\<lambda>i. 1700000000000) ''/repos/o/r''
   = (Inl \<lparr>status = 503, message = ''Server error: 503'', retryable = True\<rparr>,
      \<lparr>token = ''token'', baseUrl = ''https://api.github.com'',
       lastRateLimit = \<lparr>remaining = Some 4999, reset = Some 1700000000\<rparr>\<rparr>,
      [Fetch ''https://api.github.com/repos/o/r'', Sleep_backoff 1000,
       Fetch ''https://api.github.com/repos/o/r'', Sleep_backoff 2000,
       Fetch ''https://api.github.com/repos/o/r'', Sleep_backoff 4000,
       Fetch ''https://api.github.com/repos/o/r'']) \<and>
   length (filter is_fetch
      [Fetch ''https://api.github.com/repos/o/r'', Sleep_backoff 1000,
       Fetch ''https://api.github.com/repos/o/r'', Sleep_backoff 2000,
       Fetch ''https://api.github.com/repos/o/r'', Sleep_backoff 4000,
       Fetch ''https://api.github.com/repos/o/r'']) = 4"
proof -
  let ?client = "new_GitHubClient ''token'' None"
  let ?fetch = "\<lambda>i :: nat. (Inr \<lparr>response_status = 503, x_ratelimit_remaining = Some ''4999'',
                 x_ratelimit_reset = Some ''1700000000'', json = Inr ()\<rparr>
                 :: thrown + unit Response)"
  let ?result = "Inl \<lparr>status = 503, message = ''Server error: 503'', retryable = True\<rparr>
      :: GitHubError + unit GitHubResponse"
  let ?client' = "\<lparr>token = ''token'', baseUrl = ''https://api.github.com'',
       lastRateLimit = \<lparr>remaining = Some 4999, reset = Some 1700000000\<rparr>\<rparr>"
  let ?events = "[Fetch ''https://api.github.com/repos/o/r'', Sleep_backoff 1000,
       Fetch ''https://api.github.com/repos/o/r'', Sleep_backoff 2000,
       Fetch ''https://api.github.com/repos/o/r'', Sleep_backoff 4000,
       Fetch ''https://api.github.com/repos/o/r'']"
  have run: "get ?client ?fetch (\<lambda>i. 1700000000000) ''/repos/o/r'' = (?result, ?client', ?events)"
    by code_simp
  from get_retry_policy [OF run] obtain n where
    n: "n = length (filter is_fetch ?events)"
    and retry: "\<forall>e. ?result = Inl e \<longrightarrow> retryable e \<longrightarrow> n = 4"
    by (elim exE conjE) (rule that)
  from retry have "n = 4" by simp
  with n have "length (filter is_fetch ?events) = 4" by simp
  with run show ?thesis by (rule conjI)
qed


section \<open>The dataset validator\<close>

subsection \<open>What an empty error list says\<close>

lemma for_each_Nil_iff:
  "for_each body xs = Inr [] \<longleftrightarrow> (\<forall>x\<in>set xs. body x = Inr [])"
  by (induction xs) (auto split: sum.splits)

lemma cross_reference_errors_Nil:
  assumes "cross_reference_errors Date_parse projects = Inr []"
  shows "checkUniqueIds projects = Inr []"
    and "checkIdFormat projects = Inr []"
    and "checkPartnershipRefs projects = Inr []"
    and "checkConfidenceKeys projects = Inr []"
    and "checkDateFields Date_parse projects = Inr []"
  using assms by (auto simp add: cross_reference_errors_def split: sum.splits)

text \<open>
  A call that returns a valid result was given an array, and none of the five checks
  threw or pushed an error.
\<close>

lemma validateDataset_valid:
  assumes "validateDataset validate Date_parse dataset = Inr result" and "valid result"
  shows "\<exists>projects. dataset = JArr projects \<and>
           cross_reference_errors Date_parse projects = Inr []"
  using assms by (cases dataset) (auto simp add: validateDataset_def Let_def split: sum.splits)

subsection \<open>The minimal project is valid\<close>

lemma minimal_dataset_valid:
  "validateDataset schema_validate Date_parse_2025 (JArr [makeMinimalProject []]) =
     Inr \<lparr>valid = True, errors = []\<rparr>"
  by code_simp

subsection \<open>Partnership references\<close>

lemma project_ids_member:
  assumes "project_ids projects = Inr ids" and "x \<in> set ids"
  shows "\<exists>q\<in>set projects. read_field q ''project_id'' = Inr x"
  using assms by (induction projects arbitrary: ids) (auto split: sum.splits)

lemma has_Some:
  assumes "has ids (Some partner)"
  shows "Some partner \<in> set ids"
  using assms
  by (auto simp add: has_def list_ex_iff same_value_zero_def split: option.splits)

lemma partnership_errors_Nil:
  assumes "partnership_errors ids p = Inr []"
  shows "\<exists>partnerships partners.
           read_field p ''partnerships'' = Inr partnerships \<and>
           iterate partnerships = Inr partners \<and>
           (\<forall>partner\<in>set partners. has ids (Some partner))"
proof -
  obtain partnerships partners where 1: "read_field p ''partnerships'' = Inr partnerships"
    and 2: "iterate partnerships = Inr partners"
    using assms by (auto simp add: partnership_errors_def split: sum.splits)
  have "has ids (Some partner)" if "partner \<in> set partners" for partner
  proof (rule ccontr)
    assume "\<not> has ids (Some partner)"
    with assms 1 2 that show False
      by (cases "read_field p ''project_id''";
          cases "String (projr (read_field p ''project_id''))"; cases "to_string partner")
        (auto simp add: partnership_errors_def for_each_Nil_iff)
  qed
  then have "\<forall>partner\<in>set partners. has ids (Some partner)" by blast
  with 1 2 show ?thesis by blast
qed

text \<open>
  In a valid dataset the loop of \<^verbatim>\<open>checkPartnershipRefs\<close> has visited the partners of
  every project and found each of them among the identifiers.
\<close>

lemma partners_visited:
  assumes "validateDataset validate Date_parse dataset = Inr result" and "valid result"
  shows "\<exists>projects. dataset = JArr projects \<and>
           (\<forall>p\<in>set projects. \<exists>partnerships partners.
              read_field p ''partnerships'' = Inr partnerships \<and>
              iterate partnerships = Inr partners \<and>
              (\<forall>partner\<in>set partners. \<exists>q\<in>set projects.
                 read_field q ''project_id'' = Inr (Some partner)))"
proof -
  obtain projects where dataset: "dataset = JArr projects"
    and none: "cross_reference_errors Date_parse projects = Inr []"
    using validateDataset_valid [OF assms] by blast
  from none have "checkPartnershipRefs projects = Inr []"
    by (rule cross_reference_errors_Nil(3))
  then obtain ids where ids: "project_ids projects = Inr ids"
    and all: "\<forall>p\<in>set projects. partnership_errors ids p = Inr []"
    by (auto simp add: checkPartnershipRefs_def for_each_Nil_iff split: sum.splits)
  have "\<exists>partnerships partners.
          read_field p ''partnerships'' = Inr partnerships \<and>
          iterate partnerships = Inr partners \<and>
          (\<forall>partner\<in>set partners. \<exists>q\<in>set projects.
             read_field q ''project_id'' = Inr (Some partner))"
    if "p \<in> set projects" for p
  proof -
    from all that obtain partnerships partners
      where 1: "read_field p ''partnerships'' = Inr partnerships"
        and 2: "iterate partnerships = Inr partners"
        and 3: "\<forall>partner\<in>set partners. has ids (Some partner)"
      using partnership_errors_Nil by blast
    have "\<exists>q\<in>set projects. read_field q ''project_id'' = Inr (Some partner)"
      if "partner \<in> set partners" for partner
      using 3 that has_Some project_ids_member [OF ids] by blast
    with 1 2 show ?thesis by blast
  qed
  with dataset show ?thesis by blast
qed

text \<open>
  C9. Referential closure. When \<^verbatim>\<open>validateDataset\<close> returns a valid result for an
  array of projects, every element of the \<^verbatim>\<open>partnerships\<close> array of every record of
  the array is the \<^verbatim>\<open>project_id\<close> of some record of the same array.
\<close>

theorem partnerships_resolve:
  assumes "validateDataset validate Date_parse (JArr projects) = Inr result"
    and "valid result"
    and "JObj props \<in> set projects"
    and "map_of props ''partnerships'' = Some (JArr partners)"
    and "partner \<in> set partners"
  shows "\<exists>ids. JObj ids \<in> set projects \<and> map_of ids ''project_id'' = Some partner"
proof -
  from partners_visited [OF assms(1,2)] assms(3)
  obtain partnerships visited
    where 1: "read_field (JObj props) ''partnerships'' = Inr partnerships"
      and 2: "iterate partnerships = Inr visited"
      and 3: "\<forall>partner\<in>set visited. \<exists>q\<in>set projects.
                read_field q ''project_id'' = Inr (Some partner)"
    by blast
  from 1 assms(4) have "partnerships = Some (JArr partners)" by simp
  with 2 have "visited = partners" by simp
  with 3 assms(5) obtain q where q: "q \<in> set projects"
    and id: "read_field q ''project_id'' = Inr (Some partner)"
    by blast
  from id obtain ids where "q = JObj ids" and "map_of ids ''project_id'' = Some partner"
    by (cases q) simp_all
  with q show ?thesis by blast
qed

text \<open>
  The dataset of the test ``valid reference passes'': project \<^verbatim>\<open>a\<close> with the partner
  \<^verbatim>\<open>b\<close>, and project \<^verbatim>\<open>b\<close>.
\<close>

theorem partnerships_resolve_witness:
  "validateDataset schema_validate Date_parse_2025
     (JArr [makeMinimalProject
              [(''project_id'', JStr ''a''), (''partnerships'', JArr [JStr ''b''])],
            makeMinimalProject [(''project_id'', JStr ''b'')]]) =
     Inr \<lparr>valid = True, errors = []\<rparr> \<and>
   makeMinimalProject [(''project_id'', JStr ''a''), (''partnerships'', JArr [JStr ''b''])] =
     JObj (spread minimal_project_properties
             [(''project_id'', JStr ''a''), (''partnerships'', JArr [JStr ''b''])]) \<and>
   map_of (spread minimal_project_properties
             [(''project_id'', JStr ''a''), (''partnerships'', JArr [JStr ''b''])])
     ''partnerships'' = Some (JArr [JStr ''b'']) \<and>
   (\<exists>ids. JObj ids \<in> set [makeMinimalProject
                              [(''project_id'', JStr ''a''), (''partnerships'', JArr [JStr ''b''])],
                            makeMinimalProject [(''project_id'', JStr ''b'')]] \<and>
          map_of ids ''project_id'' = Some (JStr ''b''))"
proof -
  let ?a = "makeMinimalProject
              [(''project_id'', JStr ''a''), (''partnerships'', JArr [JStr ''b''])]"
  let ?b = "makeMinimalProject [(''project_id'', JStr ''b'')]"
  let ?props = "spread minimal_project_properties
             [(''project_id'', JStr ''a''), (''partnerships'', JArr [JStr ''b''])]"
  have run: "validateDataset schema_validate Date_parse_2025 (JArr [?a, ?b]) =
               Inr \<lparr>valid = True, errors = []\<rparr>"
    by code_simp
  have valid: "valid \<lparr>valid = True, errors = []\<rparr>"
    by simp
  have a: "?a = JObj ?props"
    by (simp add: makeMinimalProject_def)
  then have member: "JObj ?props \<in> set [?a, ?b]"
    by simp
  have partnerships: "map_of ?props ''partnerships'' = Some (JArr [JStr ''b''])"
    by (simp add: spread_def minimal_project_properties_def)
  have "JStr ''b'' \<in> set [JStr ''b'']"
    by simp
  with run valid member partnerships
  have "\<exists>ids. JObj ids \<in> set [?a, ?b] \<and> map_of ids ''project_id'' = Some (JStr ''b'')"
    by (rule partnerships_resolve)
  with run a partnerships show ?thesis
    by (intro conjI)
qed

text \<open>
  The dataset of the test ``invalid reference detected'': the one project \<^verbatim>\<open>a\<close> with
  the partner \<^verbatim>\<open>nonexistent\<close> is not valid.
\<close>

lemma unknown_partnership_rejected:
  "validateDataset schema_validate Date_parse_2025
     (JArr [makeMinimalProject
              [(''project_id'', JStr ''a''), (''partnerships'', JArr [JStr ''nonexistent''])]]) =
     Inr \<lparr>valid = False,
          errors = [''Project '' @ quoted ''a'' @ '' references unknown partnership: '' @
                    quoted ''nonexistent'']\<rparr>"
  by code_simp

subsection \<open>Confidence entries\<close>

lemma lookup_Own: "lookup props key = Own v \<longleftrightarrow> map_of props key = Some v"
  by (auto simp add: lookup_def split: option.splits)

lemma confidence_errors_Nil:
  assumes "confidence_errors p = Inr []"
  shows "\<exists>props data_confidence confidence.
           p = JObj props \<and> map_of props ''data_confidence'' = Some data_confidence \<and>
           entries (Some data_confidence) = Inr confidence \<and>
           (\<forall>key\<in>set (map fst confidence). confidence_key_errors p props key = Inr []) \<and>
           (\<forall>entry\<in>set confidence. confidence_entry_errors p props entry = Inr [])"
proof -
  obtain dc confidence where 1: "read_field p ''data_confidence'' = Inr dc"
    and 2: "entries dc = Inr confidence"
    using assms by (auto simp add: confidence_errors_def split: sum.splits)
  from 2 obtain data_confidence where dc: "dc = Some data_confidence"
    by (cases dc) auto
  from 1 dc obtain props where p: "p = JObj props"
    by (cases p) auto
  from assms 1 2
  have "for_each (confidence_key_errors p (props_of p)) (map fst confidence) = Inr []"
    and "for_each (confidence_entry_errors p (props_of p)) confidence = Inr []"
    by (auto simp add: confidence_errors_def split: sum.splits)
  with p have "\<forall>key\<in>set (map fst confidence). confidence_key_errors p props key = Inr []"
    and "\<forall>entry\<in>set confidence. confidence_entry_errors p props entry = Inr []"
    by (simp_all only: for_each_Nil_iff props_of_def json.case)
  with 1 2 dc p show ?thesis by auto
qed

lemma confidence_key_errors_Nil:
  assumes "confidence_key_errors p props key = Inr []"
  shows "key \<notin> set OBSERVATORY_MANAGED_FIELDS \<and> has_property props key"
  using assms by (auto simp add: confidence_key_errors_def split: if_splits sum.splits)

lemma confidence_entry_errors_Nil:
  assumes "confidence_entry_errors p props (key, tier) = Inr []"
    and "map_of props key = Some JNull"
  shows "tier = JNull"
  using assms
  by (auto simp add: confidence_entry_errors_def lookup_Own split: if_splits sum.splits)

text \<open>
  The biconditional of the specification, a field is null if and only if its
  confidence entry is null, fails on the minimal project of the test suite. The dataset
  that holds this one project is valid; its field \<^verbatim>\<open>network\<close> is not managed and has an
  entry in the confidence map; the field is the empty array, which is not \<^verbatim>\<open>null\<close>, and
  the entry is \<^verbatim>\<open>null\<close>. \<^verbatim>\<open>checkConfidenceKeys\<close> compares in one direction only (``Check
  null values don't have non-null confidence'').
\<close>

theorem network_without_tier_valid:
  "validateDataset schema_validate Date_parse_2025 (JArr [makeMinimalProject []]) =
     Inr \<lparr>valid = True, errors = []\<rparr> \<and>
   ''network'' \<notin> set OBSERVATORY_MANAGED_FIELDS \<and>
   read_field (makeMinimalProject []) ''network'' = Inr (Some (JArr [])) \<and>
   JArr [] \<noteq> JNull \<and>
   read_field (makeMinimalProject []) ''data_confidence'' =
     Inr (Some (JObj minimal_data_confidence)) \<and>
   read_field (JObj minimal_data_confidence) ''network'' = Inr (Some JNull)"
proof -
  have "''network'' \<notin> set OBSERVATORY_MANAGED_FIELDS"
    by (simp add: OBSERVATORY_MANAGED_FIELDS_def)
  moreover have "read_field (makeMinimalProject []) ''network'' = Inr (Some (JArr []))"
    by (simp add: makeMinimalProject_def spread_def minimal_project_properties_def)
  moreover have "read_field (makeMinimalProject []) ''data_confidence'' =
      Inr (Some (JObj minimal_data_confidence))"
    by (simp add: makeMinimalProject_def spread_def minimal_project_properties_def)
  moreover have "read_field (JObj minimal_data_confidence) ''network'' = Inr (Some JNull)"
    by (simp add: minimal_data_confidence_def)
  ultimately show ?thesis
    using minimal_dataset_valid by simp
qed

text \<open>
  In a valid dataset both loops of \<^verbatim>\<open>checkConfidenceKeys\<close> have visited every entry of
  the confidence map of every project and pushed nothing.
\<close>

lemma confidence_entries_checked:
  assumes "validateDataset validate Date_parse dataset = Inr result" and "valid result"
  shows "\<exists>projects. dataset = JArr projects \<and>
           (\<forall>p\<in>set projects. \<exists>props data_confidence confidence.
              p = JObj props \<and> map_of props ''data_confidence'' = Some data_confidence \<and>
              entries (Some data_confidence) = Inr confidence \<and>
              (\<forall>(key, tier)\<in>set confidence.
                 key \<notin> set OBSERVATORY_MANAGED_FIELDS \<and> has_property props key \<and>
                 (map_of props key = Some JNull \<longrightarrow> tier = JNull)))"
proof -
  obtain projects where dataset: "dataset = JArr projects"
    and none: "cross_reference_errors Date_parse projects = Inr []"
    using validateDataset_valid [OF assms] by blast
  from none have "checkConfidenceKeys projects = Inr []"
    by (rule cross_reference_errors_Nil(4))
  then have all: "\<forall>p\<in>set projects. confidence_errors p = Inr []"
    by (simp add: checkConfidenceKeys_def for_each_Nil_iff)
  have "\<exists>props data_confidence confidence.
          p = JObj props \<and> map_of props ''data_confidence'' = Some data_confidence \<and>
          entries (Some data_confidence) = Inr confidence \<and>
          (\<forall>(key, tier)\<in>set confidence.
             key \<notin> set OBSERVATORY_MANAGED_FIELDS \<and> has_property props key \<and>
             (map_of props key = Some JNull \<longrightarrow> tier = JNull))"
    if "p \<in> set projects" for p
  proof -
    from all that obtain props data_confidence confidence
      where 1: "p = JObj props"
        and 2: "map_of props ''data_confidence'' = Some data_confidence"
        and 3: "entries (Some data_confidence) = Inr confidence"
        and keys: "\<forall>key\<in>set (map fst confidence). confidence_key_errors p props key = Inr []"
        and entries: "\<forall>entry\<in>set confidence. confidence_entry_errors p props entry = Inr []"
      using confidence_errors_Nil by blast
    have "key \<notin> set OBSERVATORY_MANAGED_FIELDS \<and> has_property props key \<and>
          (map_of props key = Some JNull \<longrightarrow> tier = JNull)"
      if "(key, tier) \<in> set confidence" for key tier
    proof -
      from that have "key \<in> set (map fst confidence)" by force
      with keys have "confidence_key_errors p props key = Inr []" by blast
      moreover from entries that have "confidence_entry_errors p props (key, tier) = Inr []"
        by blast
      ultimately show ?thesis
        using confidence_key_errors_Nil confidence_entry_errors_Nil by blast
    qed
    then have "\<forall>(key, tier)\<in>set confidence.
                 key \<notin> set OBSERVATORY_MANAGED_FIELDS \<and> has_property props key \<and>
                 (map_of props key = Some JNull \<longrightarrow> tier = JNull)"
      by blast
    with 1 2 3 show ?thesis by blast
  qed
  with dataset show ?thesis by blast
qed

text \<open>
  C1, amended. When \<^verbatim>\<open>validateDataset\<close> returns a valid result for an array of
  projects, then for every record of the array and every entry of the record's
  confidence map: if the value of the field of that name is \<^verbatim>\<open>null\<close>, the entry is
  \<^verbatim>\<open>null\<close>. The converse is not checked: a field that is not \<^verbatim>\<open>null\<close> may have a
  \<^verbatim>\<open>null\<close> entry.
\<close>

theorem null_value_null_tier:
  assumes "validateDataset validate Date_parse (JArr projects) = Inr result"
    and "valid result"
    and "JObj props \<in> set projects"
    and "map_of props ''data_confidence'' = Some (JObj confidence)"
    and "(key, tier) \<in> set confidence"
    and "map_of props key = Some JNull"
  shows "tier = JNull"
proof -
  from confidence_entries_checked [OF assms(1,2)] assms(3)
  obtain props' data_confidence visited
    where 1: "JObj props = JObj props'"
      and 2: "map_of props' ''data_confidence'' = Some data_confidence"
      and 3: "entries (Some data_confidence) = Inr visited"
      and 4: "\<forall>(key, tier)\<in>set visited.
                key \<notin> set OBSERVATORY_MANAGED_FIELDS \<and> has_property props' key \<and>
                (map_of props' key = Some JNull \<longrightarrow> tier = JNull)"
    by blast
  from 1 have props: "props' = props" by simp
  with 2 assms(4) have "data_confidence = JObj confidence" by simp
  with 3 have "visited = confidence" by simp
  with 4 assms(5,6) props show ?thesis by blast
qed

text \<open>
  The minimal project: \<^verbatim>\<open>entity_name\<close> is \<^verbatim>\<open>null\<close>, and so is its entry.
\<close>

theorem null_value_null_tier_witness:
  "validateDataset schema_validate Date_parse_2025 (JArr [makeMinimalProject []]) =
     Inr \<lparr>valid = True, errors = []\<rparr> \<and>
   makeMinimalProject [] = JObj minimal_project_properties \<and>
   map_of minimal_project_properties ''data_confidence'' =
     Some (JObj minimal_data_confidence) \<and>
   map_of minimal_project_properties ''entity_name'' = Some JNull \<and>
   map_of minimal_data_confidence ''entity_name'' = Some JNull"
proof -
  have valid: "valid \<lparr>valid = True, errors = []\<rparr>"
    by simp
  have project: "makeMinimalProject [] = JObj minimal_project_properties"
    by (simp add: makeMinimalProject_def spread_def minimal_project_properties_def)
  then have member: "JObj minimal_project_properties \<in> set [makeMinimalProject []]"
    by simp
  have confidence: "map_of minimal_project_properties ''data_confidence'' =
      Some (JObj minimal_data_confidence)"
    by (simp add: minimal_project_properties_def)
  have field: "map_of minimal_project_properties ''entity_name'' = Some JNull"
    by (simp add: minimal_project_properties_def)
  obtain tier where tier: "map_of minimal_data_confidence ''entity_name'' = Some tier"
    by (simp add: minimal_data_confidence_def)
  then have "(''entity_name'', tier) \<in> set minimal_data_confidence"
    by (rule map_of_SomeD)
  with minimal_dataset_valid valid member confidence have "tier = JNull"
    using field by (rule null_value_null_tier)
  with tier minimal_dataset_valid project confidence field show ?thesis
    by simp
qed

text \<open>
  The dataset of the test ``detects null value with non-null confidence'': \<^verbatim>\<open>repo_url\<close>
  is \<^verbatim>\<open>null\<close> and its entry is \<^verbatim>\<open>verified\<close>; the dataset is not valid.
\<close>

lemma null_value_with_tier_rejected:
  "validateDataset schema_validate Date_parse_2025
     (JArr [makeMinimalProject
              [(''data_confidence'',
                JObj (spread minimal_data_confidence [(''repo_url'', JStr ''verified'')]))]]) =
     Inr \<lparr>valid = False,
          errors = [''Project '' @ quoted ''test-project'' @ '': field '' @ quoted ''repo_url'' @
                    '' is null but confidence is '' @ quoted ''verified'']\<rparr>"
  by code_simp

subsection \<open>The result\<close>

text \<open>
  Whenever the call returns, the error list is empty exactly if the flag is set: for an
  array by the last statement of the function, for any other value because the schema
  has reported at least one error. The empty array is valid, with no error.
\<close>

lemma schema_rejects_non_array:
  assumes "\<forall>projects. dataset \<noteq> JArr projects"
  shows "errors (createValidator schema_validate dataset) \<noteq> []"
  using assms
  by (cases dataset) (simp_all add: createValidator_def schema_validate_def schema_errors_def)

lemma validateDataset_errors_iff_valid:
  assumes "validateDataset schema_validate Date_parse dataset = Inr result"
  shows "errors result = [] \<longleftrightarrow> valid result"
proof (cases "\<exists>projects. dataset = JArr projects")
  case True
  with assms show ?thesis
    by (auto simp add: validateDataset_def Let_def split: sum.splits)
next
  case False
  then have "errors (createValidator schema_validate dataset) \<noteq> []"
    using schema_rejects_non_array by blast
  with assms False show ?thesis
    by (cases dataset) (auto simp add: validateDataset_def Let_def)
qed

lemma validateDataset_empty:
  "validateDataset schema_validate Date_parse (JArr []) = Inr \<lparr>valid = True, errors = []\<rparr>"
  by (simp add: validateDataset_def Let_def cross_reference_errors_def checkUniqueIds_def
      checkIdFormat_def checkPartnershipRefs_def checkConfidenceKeys_def checkDateFields_def
      createValidator_def schema_validate_def schema_errors_def)

text \<open>
  C6. The call does not return for every input. On the array that holds the one element
  \<^verbatim>\<open>null\<close>, whatever the schema validation reports, \<^verbatim>\<open>checkUniqueIds\<close> reads
  \<^verbatim>\<open>p.project_id\<close> of \<^verbatim>\<open>null\<close>: the call ends with a \<^verbatim>\<open>TypeError\<close> and gives no result, so
  neither a flag nor an error list.
\<close>

theorem validateDataset_null_record_throws:
  "validateDataset validate Date_parse (JArr [JNull]) = Inl TypeError"
  by (simp add: validateDataset_def Let_def cross_reference_errors_def checkUniqueIds_def)

end
